theory Spec2Isabelle
  imports Complex_Main "HOL-Library.Word"
begin

section \<open>The Discord IPC client of MathHelper\<close>

text \<open>
  A shallow embedding of the classes \<^verbatim>\<open>DiscordIpcClient\<close>, \<^verbatim>\<open>WinDiscordIpcClient\<close> and
  \<^verbatim>\<open>UnixDiscordIpcClient\<close> of \<^verbatim>\<open>MathHelper-1.0-release.py\<close>.

  A Python call either returns a value or raises: its result is a value of \<open>error + 'a\<close>
  (\<open>Inl\<close> is the exception raised) paired with the state it leaves behind. The loop of
  \<^verbatim>\<open>_recv_exactly\<close> has no bound, so it and everything that calls it returns an
  \<open>option\<close>: \<open>None\<close> is "the call never returns".

  What lies outside the repository is a parameter of the model: the operating system's
  files and sockets, the \<^verbatim>\<open>json\<close> codec, \<^verbatim>\<open>os.getpid\<close> and \<^verbatim>\<open>uuid.uuid4\<close>. Calls to
  \<^verbatim>\<open>logger\<close> change nothing the client observes and are left out.
\<close>

subsection \<open>Values, exceptions, opcodes\<close>

type_synonym byte = "8 word"

text \<open>
  The values \<^verbatim>\<open>json.loads\<close> can return and \<^verbatim>\<open>json.dumps\<close> accepts. A \<^verbatim>\<open>dict\<close> is an
  association list in insertion order (its keys are distinct in Python); equality of
  association lists implies Python's equality of dicts. A finite float is carried as
  its real value; no arithmetic is done on it. Python objects that \<^verbatim>\<open>json.dumps\<close>
  refuses are not values of this type, so \<open>json_dumps\<close> below is total.
\<close>

datatype json =
    JNull
  | JBool bool
  | JInt int
  | JFloat real
  | JStr string
  | JArr "json list"
  | JObj "(string \<times> json) list"

datatype error =
    OSError
  | StructError
  | KeyError string
  | TypeError
  | AttributeError
  | UnicodeDecodeError
  | JSONDecodeError
  | RuntimeError json
  | DiscordIpcError string
  | FormatNotModelled

definition OP_HANDSHAKE :: int where "OP_HANDSHAKE = 0"
definition OP_FRAME :: int where "OP_FRAME = 1"
definition OP_CLOSE :: int where "OP_CLOSE = 2"
definition OP_PING :: int where "OP_PING = 3"
definition OP_PONG :: int where "OP_PONG = 4"

subsection \<open>\<^verbatim>\<open>struct.pack("<II", ...)\<close> and \<^verbatim>\<open>struct.unpack("<II", ...)\<close>\<close>

text \<open>
  Format \<^verbatim>\<open>I\<close> is an unsigned 32-bit integer, \<^verbatim>\<open><\<close> is little-endian without padding.
  Packing a Python int outside \<open>0 .. 2^32 - 1\<close> raises \<^verbatim>\<open>struct.error\<close>; unpacking a buffer
  whose length is not 8 raises \<^verbatim>\<open>struct.error\<close>.
\<close>

definition pack_I :: "int \<Rightarrow> byte list" where
  "pack_I x = [word_of_int x, word_of_int (x div 256),
               word_of_int (x div 65536), word_of_int (x div 16777216)]"

definition struct_pack_II :: "int \<Rightarrow> int \<Rightarrow> error + byte list" where
  "struct_pack_II a b =
     (if 0 \<le> a \<and> a < 2 ^ 32 \<and> 0 \<le> b \<and> b < 2 ^ 32
      then Inr (pack_I a @ pack_I b) else Inl StructError)"

definition unpack_I :: "byte list \<Rightarrow> int" where
  "unpack_I bs = uint (bs ! 0) + 256 * uint (bs ! 1)
                 + 65536 * uint (bs ! 2) + 16777216 * uint (bs ! 3)"

definition struct_unpack_II :: "byte list \<Rightarrow> error + int \<times> int" where
  "struct_unpack_II bs =
     (if length bs = 8 then Inr (unpack_I (take 4 bs), unpack_I (drop 4 bs))
      else Inl StructError)"

subsection \<open>The abstract methods and what the client calls outside the repository\<close>

text \<open>
  \<open>'s\<close> is the state of the transport (the subclass's handle and the operating system
  behind it). \<open>write_impl\<close>, \<open>recv_impl\<close> and \<open>close_impl\<close> are the subclass's \<^verbatim>\<open>_write\<close>,
  \<^verbatim>\<open>_recv\<close> and \<^verbatim>\<open>_close\<close>. \<open>json_dumps d\<close> is
  \<^verbatim>\<open>json.dumps(d, separators=(',', ':')).encode('utf-8')\<close>, \<open>json_loads b\<close> is
  \<^verbatim>\<open>json.loads(b.decode('utf-8'))\<close>. \<open>uuid4_str k\<close> is \<^verbatim>\<open>str(uuid.uuid4())\<close> at the
  \<open>k\<close>-th call of \<^verbatim>\<open>uuid.uuid4\<close>.
\<close>

record library =
  json_dumps :: "json \<Rightarrow> byte list"
  json_loads :: "byte list \<Rightarrow> error + json"
  getpid :: int
  uuid4_str :: "nat \<Rightarrow> string"

record 's platform = library +
  write_impl :: "byte list \<Rightarrow> 's \<Rightarrow> (error + unit) \<times> 's"
  recv_impl :: "int \<Rightarrow> 's \<Rightarrow> (error + byte list) \<times> 's"
  close_impl :: "'s \<Rightarrow> (error + unit) \<times> 's"

text \<open>
  The client: the transport state, the calls of the abstract methods made so far (in
  order, with their arguments; a call is recorded whether it returns or raises), and
  the number of calls of \<^verbatim>\<open>uuid.uuid4\<close> made so far.
\<close>

datatype event = Write "byte list" | Recv int | Close

record 's conn =
  inner :: 's
  calls :: "event list"
  drawn :: nat

definition write_call :: "'s platform \<Rightarrow> byte list \<Rightarrow> 's conn \<Rightarrow> (error + unit) \<times> 's conn" where
  "write_call P bs c =
     (case write_impl P bs (inner c) of
        (r, s') \<Rightarrow> (r, c\<lparr>inner := s', calls := calls c @ [Write bs]\<rparr>))"

definition recv_call :: "'s platform \<Rightarrow> int \<Rightarrow> 's conn \<Rightarrow> (error + byte list) \<times> 's conn" where
  "recv_call P sz c =
     (case recv_impl P sz (inner c) of
        (r, s') \<Rightarrow> (r, c\<lparr>inner := s', calls := calls c @ [Recv sz]\<rparr>))"

definition close_call :: "'s platform \<Rightarrow> 's conn \<Rightarrow> (error + unit) \<times> 's conn" where
  "close_call P c =
     (case close_impl P (inner c) of
        (r, s') \<Rightarrow> (r, c\<lparr>inner := s', calls := calls c @ [Close]\<rparr>))"

subsection \<open>\<^verbatim>\<open>DiscordIpcClient\<close>\<close>

text \<open>
  \<^verbatim>\<open>_recv_exactly\<close>: \<open>recv_loop\<close> is the \<^verbatim>\<open>while size_remaining:\<close> loop with the buffer and
  the counter as arguments. The counter is a Python int: the loop runs while it is not
  zero, also when it is negative.
\<close>

partial_function (option) recv_loop ::
  "'s platform \<Rightarrow> byte list \<Rightarrow> int \<Rightarrow> 's conn \<Rightarrow> ((error + byte list) \<times> 's conn) option" where
  "recv_loop P buf size_remaining c =
     (if size_remaining \<noteq> 0 then
        (case recv_call P size_remaining c of
           (Inl e, c') \<Rightarrow> Some (Inl e, c')
         | (Inr chunk, c') \<Rightarrow>
             recv_loop P (buf @ chunk) (size_remaining - int (length chunk)) c')
      else Some (Inr buf, c))"

definition recv_exactly ::
  "'s platform \<Rightarrow> int \<Rightarrow> 's conn \<Rightarrow> ((error + byte list) \<times> 's conn) option" where
  "recv_exactly P sz c = recv_loop P [] sz c"

definition recv_header ::
  "'s platform \<Rightarrow> 's conn \<Rightarrow> ((error + int \<times> int) \<times> 's conn) option" where
  "recv_header P c =
     (case recv_exactly P 8 c of
        None \<Rightarrow> None
      | Some (Inl e, c') \<Rightarrow> Some (Inl e, c')
      | Some (Inr header, c') \<Rightarrow> Some (struct_unpack_II header, c'))"

definition send :: "'s platform \<Rightarrow> json \<Rightarrow> int \<Rightarrow> 's conn \<Rightarrow> (error + unit) \<times> 's conn" where
  "send P data op c =
     (let data_bytes = json_dumps P data in
      case struct_pack_II op (int (length data_bytes)) of
        Inl e \<Rightarrow> (Inl e, c)
      | Inr header \<Rightarrow> write_call P (header @ data_bytes) c)"

definition recv :: "'s platform \<Rightarrow> 's conn \<Rightarrow> ((error + int \<times> json) \<times> 's conn) option" where
  "recv P c =
     (case recv_header P c of
        None \<Rightarrow> None
      | Some (Inl e, c1) \<Rightarrow> Some (Inl e, c1)
      | Some (Inr (op, len), c1) \<Rightarrow>
          (case recv_exactly P len c1 of
             None \<Rightarrow> None
           | Some (Inl e, c2) \<Rightarrow> Some (Inl e, c2)
           | Some (Inr payload, c2) \<Rightarrow>
               (case json_loads P payload of
                  Inl e \<Rightarrow> Some (Inl e, c2)
                | Inr data \<Rightarrow> Some (Inr (op, data), c2))))"

definition send_recv ::
  "'s platform \<Rightarrow> json \<Rightarrow> int \<Rightarrow> 's conn \<Rightarrow> ((error + int \<times> json) \<times> 's conn) option" where
  "send_recv P data op c =
     (case send P data op c of
        (Inl e, c1) \<Rightarrow> Some (Inl e, c1)
      | (Inr u, c1) \<Rightarrow> recv P c1)"

text \<open>
  \<^verbatim>\<open>close\<close>: \<^verbatim>\<open>try: self.send({}, op=OP_CLOSE)  finally: self._close()\<close>. The \<^verbatim>\<open>finally\<close>
  block runs whatever \<^verbatim>\<open>send\<close> did. An exception of \<^verbatim>\<open>_close\<close> is the one raised; when
  \<^verbatim>\<open>_close\<close> returns, an exception of \<^verbatim>\<open>send\<close> is raised again.
\<close>

definition close :: "'s platform \<Rightarrow> 's conn \<Rightarrow> (error + unit) \<times> 's conn" where
  "close P c =
     (case send P (JObj []) OP_CLOSE c of
        (r, c1) \<Rightarrow>
          (case close_call P c1 of
             (Inl e', c2) \<Rightarrow> (Inl e', c2)
           | (Inr u, c2) \<Rightarrow>
               (case r of Inl e \<Rightarrow> (Inl e, c2) | Inr v \<Rightarrow> (Inr (), c2))))"

text \<open>
  \<^verbatim>\<open>ret_data[key]\<close> with a \<^verbatim>\<open>str\<close> key: a dict looks the key up and raises \<^verbatim>\<open>KeyError\<close>
  when it is absent; a list or a string raises \<^verbatim>\<open>TypeError\<close> (their indices are
  integers); \<^verbatim>\<open>None\<close>, a bool, an int and a float are not subscriptable
  (\<^verbatim>\<open>TypeError\<close>).
\<close>

fun getitem :: "json \<Rightarrow> string \<Rightarrow> error + json" where
  "getitem (JObj kvs) k = (case map_of kvs k of None \<Rightarrow> Inl (KeyError k) | Some v \<Rightarrow> Inr v)"
| "getitem _ k = Inl TypeError"

text \<open>
  The condition of \<^verbatim>\<open>_do_handshake\<close>,
  \<^verbatim>\<open>ret_op == OP_FRAME and ret_data['cmd'] == 'DISPATCH' and ret_data['evt'] == 'READY'\<close>:
  \<^verbatim>\<open>and\<close> evaluates its right operand only when the left one is true.
\<close>

definition handshake_accepted :: "int \<Rightarrow> json \<Rightarrow> error + bool" where
  "handshake_accepted ret_op ret_data =
     (if ret_op = OP_FRAME then
        (case getitem ret_data ''cmd'' of
           Inl e \<Rightarrow> Inl e
         | Inr cmd \<Rightarrow>
             (if cmd = JStr ''DISPATCH'' then
                (case getitem ret_data ''evt'' of
                   Inl e \<Rightarrow> Inl e
                 | Inr evt \<Rightarrow> Inr (evt = JStr ''READY''))
              else Inr False))
      else Inr False)"

definition do_handshake ::
  "'s platform \<Rightarrow> json \<Rightarrow> 's conn \<Rightarrow> ((error + unit) \<times> 's conn) option" where
  "do_handshake P client_id c =
     (case send_recv P (JObj [(''v'', JInt 1), (''client_id'', client_id)]) OP_HANDSHAKE c of
        None \<Rightarrow> None
      | Some (Inl e, c1) \<Rightarrow> Some (Inl e, c1)
      | Some (Inr (ret_op, ret_data), c1) \<Rightarrow>
          (case handshake_accepted ret_op ret_data of
             Inl e \<Rightarrow> Some (Inl e, c1)
           | Inr True \<Rightarrow> Some (Inr (), c1)
           | Inr False \<Rightarrow>
               (if ret_op = OP_CLOSE then
                  (case close P c1 of
                     (Inl e, c2) \<Rightarrow> Some (Inl e, c2)
                   | (Inr u, c2) \<Rightarrow> Some (Inl (RuntimeError ret_data), c2))
                else Some (Inl (RuntimeError ret_data), c1))))"


text \<open>
  \<^verbatim>\<open>__init__\<close>: \<^verbatim>\<open>self._connect()\<close>, whose return value is dropped, then
  \<^verbatim>\<open>self._do_handshake()\<close>. \<open>connect\<close> is the subclass's \<^verbatim>\<open>_connect\<close>; what it returns is
  \<open>None\<close> for Python's \<^verbatim>\<open>None\<close> and \<open>Some e\<close> for an exception object.
\<close>

definition init ::
  "'s platform \<Rightarrow> ('s \<Rightarrow> (error + error option) \<times> 's) \<Rightarrow> json \<Rightarrow> 's conn
   \<Rightarrow> ((error + unit) \<times> 's conn) option" where
  "init P connect client_id c =
     (case connect (inner c) of
        (Inl e, s') \<Rightarrow> Some (Inl e, c\<lparr>inner := s'\<rparr>)
      | (Inr ret, s') \<Rightarrow> do_handshake P client_id (c\<lparr>inner := s'\<rparr>))"

subsection \<open>The operating system\<close>

text \<open>
  \<open>'w\<close> is the state of the operating system. \<open>os_open p\<close> is \<^verbatim>\<open>open(p, "w+b")\<close>; the
  \<open>file_\<close> functions are the methods of the file object it returns, the \<open>sock_\<close>
  functions those of the object \<^verbatim>\<open>socket.socket(socket.AF_UNIX)\<close> returns
  (\<open>socket_new\<close>). \<open>environ\<close> is \<^verbatim>\<open>os.environ\<close>, \<open>path_exists\<close> is \<^verbatim>\<open>os.path.exists\<close>.
\<close>

type_synonym handle = nat

record 'w os =
  os_open :: "string \<Rightarrow> 'w \<Rightarrow> (error + handle) \<times> 'w"
  file_write :: "handle \<Rightarrow> byte list \<Rightarrow> 'w \<Rightarrow> (error + unit) \<times> 'w"
  file_flush :: "handle \<Rightarrow> 'w \<Rightarrow> (error + unit) \<times> 'w"
  file_read :: "handle \<Rightarrow> int \<Rightarrow> 'w \<Rightarrow> (error + byte list) \<times> 'w"
  file_close :: "handle \<Rightarrow> 'w \<Rightarrow> (error + unit) \<times> 'w"
  environ :: "string \<rightharpoonup> string"
  path_exists :: "string \<Rightarrow> 'w \<Rightarrow> bool"
  socket_new :: "'w \<Rightarrow> (error + handle) \<times> 'w"
  sock_connect :: "handle \<Rightarrow> string \<Rightarrow> 'w \<Rightarrow> (error + unit) \<times> 'w"
  sock_sendall :: "handle \<Rightarrow> byte list \<Rightarrow> 'w \<Rightarrow> (error + unit) \<times> 'w"
  sock_recv :: "handle \<Rightarrow> int \<Rightarrow> 'w \<Rightarrow> (error + byte list) \<times> 'w"
  sock_close :: "handle \<Rightarrow> 'w \<Rightarrow> (error + unit) \<times> 'w"

text \<open>\<^verbatim>\<open>str(i)\<close> of a natural number, and the range of the two \<^verbatim>\<open>for i in range(10)\<close>.\<close>

fun str_nat :: "nat \<Rightarrow> string" where
  "str_nat n = (if n < 10 then [char_of (48 + n)]
                else str_nat (n div 10) @ [char_of (48 + n mod 10)])"

definition range10 :: "nat list" where
  "range10 = [0, 1, 2, 3, 4, 5, 6, 7, 8, 9]"

subsection \<open>\<^verbatim>\<open>WinDiscordIpcClient\<close>\<close>

text \<open>
  The instance attributes \<^verbatim>\<open>_f\<close> and \<^verbatim>\<open>path\<close> exist only once they have been assigned:
  reading an absent attribute raises \<^verbatim>\<open>AttributeError\<close>.
\<close>

record 'w win =
  win_f :: "handle option"
  win_path :: "string option"
  win_os :: 'w

text \<open>\<^verbatim>\<open>R'\\?\pipe\discord-ipc-{}'.format(i)\<close>\<close>

definition win_pipe_path :: "nat \<Rightarrow> string" where
  "win_pipe_path i = [CHR 0x5C, CHR 0x5C] @ ''?'' @ [CHR 0x5C] @ ''pipe'' @ [CHR 0x5C]
                     @ ''discord-ipc-'' @ str_nat i"

text \<open>
  The \<^verbatim>\<open>for\<close> loop of \<^verbatim>\<open>_connect\<close> over the indices still to try. \<open>Inr (Some path)\<close>: the
  loop was left by \<^verbatim>\<open>break\<close> with this \<^verbatim>\<open>path\<close>; \<open>Inr None\<close>: the range is exhausted, so
  the \<^verbatim>\<open>else\<close> clause of the loop runs. Only \<^verbatim>\<open>OSError\<close> is caught.
\<close>

fun win_connect_loop ::
  "'w os \<Rightarrow> nat list \<Rightarrow> 'w win \<Rightarrow> (error + string option) \<times> 'w win" where
  "win_connect_loop os [] s = (Inr None, s)"
| "win_connect_loop os (i # is) s =
     (let path = win_pipe_path i in
      case os_open os path (win_os s) of
        (Inl OSError, w) \<Rightarrow> win_connect_loop os is (s\<lparr>win_os := w\<rparr>)
      | (Inl e, w) \<Rightarrow> (Inl e, s\<lparr>win_os := w\<rparr>)
      | (Inr h, w) \<Rightarrow> (Inr (Some path), s\<lparr>win_f := Some h, win_os := w\<rparr>))"

definition win_connect :: "'w os \<Rightarrow> 'w win \<Rightarrow> (error + error option) \<times> 'w win" where
  "win_connect os s =
     (case win_connect_loop os range10 s of
        (Inl e, s') \<Rightarrow> (Inl e, s')
      | (Inr None, s') \<Rightarrow>
          (Inr (Some (DiscordIpcError ''Failed to connect to Discord pipe'')), s')
      | (Inr (Some path), s') \<Rightarrow> (Inr None, s'\<lparr>win_path := Some path\<rparr>))"

definition win_write :: "'w os \<Rightarrow> byte list \<Rightarrow> 'w win \<Rightarrow> (error + unit) \<times> 'w win" where
  "win_write os bs s =
     (case win_f s of
        None \<Rightarrow> (Inl AttributeError, s)
      | Some h \<Rightarrow>
          (case file_write os h bs (win_os s) of
             (Inl e, w) \<Rightarrow> (Inl e, s\<lparr>win_os := w\<rparr>)
           | (Inr u, w) \<Rightarrow>
               (case file_flush os h w of (r, w') \<Rightarrow> (r, s\<lparr>win_os := w'\<rparr>))))"

definition win_recv :: "'w os \<Rightarrow> int \<Rightarrow> 'w win \<Rightarrow> (error + byte list) \<times> 'w win" where
  "win_recv os sz s =
     (case win_f s of
        None \<Rightarrow> (Inl AttributeError, s)
      | Some h \<Rightarrow> (case file_read os h sz (win_os s) of (r, w) \<Rightarrow> (r, s\<lparr>win_os := w\<rparr>)))"

definition win_close :: "'w os \<Rightarrow> 'w win \<Rightarrow> (error + unit) \<times> 'w win" where
  "win_close os s =
     (case win_f s of
        None \<Rightarrow> (Inl AttributeError, s)
      | Some h \<Rightarrow> (case file_close os h (win_os s) of (r, w) \<Rightarrow> (r, s\<lparr>win_os := w\<rparr>)))"

definition win_platform :: "'w os \<Rightarrow> library \<Rightarrow> 'w win platform" where
  "win_platform os L =
     \<lparr>json_dumps = json_dumps L, json_loads = json_loads L, getpid = getpid L,
      uuid4_str = uuid4_str L,
      write_impl = win_write os, recv_impl = win_recv os, close_impl = win_close os\<rparr>"

definition WinDiscordIpcClient ::
  "'w os \<Rightarrow> library \<Rightarrow> json \<Rightarrow> 'w win conn \<Rightarrow> ((error + unit) \<times> 'w win conn) option" where
  "WinDiscordIpcClient os L client_id c =
     init (win_platform os L) (win_connect os) client_id c"

subsection \<open>\<^verbatim>\<open>UnixDiscordIpcClient\<close>\<close>

record 'w unix =
  unix_sock :: "handle option"
  unix_os :: 'w

text \<open>
  \<^verbatim>\<open>_get_pipe_pattern\<close>: the first of the four variables that is set to a non-empty
  string, else \<^verbatim>\<open>/tmp\<close>; \<^verbatim>\<open>os.path.join\<close> puts a \<^verbatim>\<open>/\<close> between the directory and the
  name unless the directory ends with one. The pattern is returned without its final
  replacement field \<^verbatim>\<open>{}\<close>, which \<open>unix_format\<close> fills in.
\<close>

fun first_set :: "(string \<rightharpoonup> string) \<Rightarrow> string list \<Rightarrow> string" where
  "first_set env [] = ''/tmp''"
| "first_set env (k # ks) =
     (case env k of
        None \<Rightarrow> first_set env ks
      | Some dir_path \<Rightarrow> (if dir_path \<noteq> [] then dir_path else first_set env ks))"

definition get_pipe_pattern :: "(string \<rightharpoonup> string) \<Rightarrow> string" where
  "get_pipe_pattern env =
     (let dir_path = first_set env [''XDG_RUNTIME_DIR'', ''TMPDIR'', ''TMP'', ''TEMP''] in
      (if last dir_path = CHR ''/'' then dir_path else dir_path @ ''/'') @ ''discord-ipc-'')"

text \<open>
  \<^verbatim>\<open>pipe_pattern.format(i)\<close>. The format mini-language is modelled for a directory
  without braces only: there the one replacement field is the final \<^verbatim>\<open>{}\<close>. A directory
  with a brace in it is outside the model (\<open>FormatNotModelled\<close>).
\<close>

definition unix_format :: "string \<Rightarrow> nat \<Rightarrow> error + string" where
  "unix_format pat i =
     (if CHR ''{'' \<in> set pat \<or> CHR ''}'' \<in> set pat then Inl FormatNotModelled
      else Inr (pat @ str_nat i))"

fun unix_connect_loop ::
  "'w os \<Rightarrow> handle \<Rightarrow> string \<Rightarrow> nat list \<Rightarrow> 'w \<Rightarrow> (error + bool) \<times> 'w" where
  "unix_connect_loop os sock pat [] w = (Inr False, w)"
| "unix_connect_loop os sock pat (i # is) w =
     (case unix_format pat i of
        Inl e \<Rightarrow> (Inl e, w)
      | Inr path \<Rightarrow>
          (if \<not> path_exists os path w then unix_connect_loop os sock pat is w
           else
             (case sock_connect os sock path w of
                (Inl OSError, w') \<Rightarrow> unix_connect_loop os sock pat is w'
              | (Inl e, w') \<Rightarrow> (Inl e, w')
              | (Inr u, w') \<Rightarrow> (Inr True, w'))))"

text \<open>
  \<open>unix_connect_loop\<close> returns \<open>Inr True\<close> when the loop was left by \<^verbatim>\<open>break\<close> and
  \<open>Inr False\<close> when the range is exhausted and the \<^verbatim>\<open>else\<close> clause runs.
\<close>

definition unix_connect :: "'w os \<Rightarrow> 'w unix \<Rightarrow> (error + error option) \<times> 'w unix" where
  "unix_connect os s =
     (case socket_new os (unix_os s) of
        (Inl e, w) \<Rightarrow> (Inl e, s\<lparr>unix_os := w\<rparr>)
      | (Inr sock, w) \<Rightarrow>
          (case unix_connect_loop os sock (get_pipe_pattern (environ os)) range10 w of
             (Inl e, w') \<Rightarrow> (Inl e, \<lparr>unix_sock = Some sock, unix_os = w'\<rparr>)
           | (Inr False, w') \<Rightarrow>
               (Inr (Some (DiscordIpcError ''Failed to connect to Discord pipe'')),
                \<lparr>unix_sock = Some sock, unix_os = w'\<rparr>)
           | (Inr True, w') \<Rightarrow> (Inr None, \<lparr>unix_sock = Some sock, unix_os = w'\<rparr>)))"

definition unix_write :: "'w os \<Rightarrow> byte list \<Rightarrow> 'w unix \<Rightarrow> (error + unit) \<times> 'w unix" where
  "unix_write os bs s =
     (case unix_sock s of
        None \<Rightarrow> (Inl AttributeError, s)
      | Some h \<Rightarrow> (case sock_sendall os h bs (unix_os s) of (r, w) \<Rightarrow> (r, s\<lparr>unix_os := w\<rparr>)))"

definition unix_recv :: "'w os \<Rightarrow> int \<Rightarrow> 'w unix \<Rightarrow> (error + byte list) \<times> 'w unix" where
  "unix_recv os sz s =
     (case unix_sock s of
        None \<Rightarrow> (Inl AttributeError, s)
      | Some h \<Rightarrow> (case sock_recv os h sz (unix_os s) of (r, w) \<Rightarrow> (r, s\<lparr>unix_os := w\<rparr>)))"

definition unix_close :: "'w os \<Rightarrow> 'w unix \<Rightarrow> (error + unit) \<times> 'w unix" where
  "unix_close os s =
     (case unix_sock s of
        None \<Rightarrow> (Inl AttributeError, s)
      | Some h \<Rightarrow> (case sock_close os h (unix_os s) of (r, w) \<Rightarrow> (r, s\<lparr>unix_os := w\<rparr>)))"

definition unix_platform :: "'w os \<Rightarrow> library \<Rightarrow> 'w unix platform" where
  "unix_platform os L =
     \<lparr>json_dumps = json_dumps L, json_loads = json_loads L, getpid = getpid L,
      uuid4_str = uuid4_str L,
      write_impl = unix_write os, recv_impl = unix_recv os, close_impl = unix_close os\<rparr>"

definition UnixDiscordIpcClient ::
  "'w os \<Rightarrow> library \<Rightarrow> json \<Rightarrow> 'w unix conn \<Rightarrow> ((error + unit) \<times> 'w unix conn) option" where
  "UnixDiscordIpcClient os L client_id c =
     init (unix_platform os L) (unix_connect os) client_id c"

subsection \<open>A byte-stream peer, for running the client on concrete inputs\<close>

text \<open>
  A transport whose peer has written \<open>incoming\<close> and then hung up. A read of at most
  \<open>sz\<close> bytes hands over the next bytes, at most \<open>sz\<close> of them and at most the next
  entry of \<open>limits\<close> (at least one byte while there are any; with no entry left, as
  many as asked for): this is how a pipe or a stream socket splits what it delivers.
  Once \<open>incoming\<close> is used up every read returns the empty byte string, which is what
  \<^verbatim>\<open>socket.recv\<close> and \<^verbatim>\<open>read\<close> return at end of file. \<open>wire_write\<close> collects what the
  client writes; \<open>echo_write\<close> is a peer that sends every byte back.
\<close>

record wire =
  incoming :: "byte list"
  limits :: "nat list"
  outgoing :: "byte list"

definition chunk_len :: "int \<Rightarrow> wire \<Rightarrow> nat" where
  "chunk_len sz w = (case limits w of [] \<Rightarrow> nat sz | l # ls \<Rightarrow> min (nat sz) (max 1 l))"

definition wire_recv :: "int \<Rightarrow> wire \<Rightarrow> (error + byte list) \<times> wire" where
  "wire_recv sz w =
     (let k = chunk_len sz w in
      (Inr (take k (incoming w)),
       w\<lparr>incoming := drop k (incoming w), limits := tl (limits w)\<rparr>))"

definition wire_write :: "byte list \<Rightarrow> wire \<Rightarrow> (error + unit) \<times> wire" where
  "wire_write bs w = (Inr (), w\<lparr>outgoing := outgoing w @ bs\<rparr>)"

definition echo_write :: "byte list \<Rightarrow> wire \<Rightarrow> (error + unit) \<times> wire" where
  "echo_write bs w = (Inr (), w\<lparr>incoming := incoming w @ bs, outgoing := outgoing w @ bs\<rparr>)"

definition broken_write :: "byte list \<Rightarrow> wire \<Rightarrow> (error + unit) \<times> wire" where
  "broken_write bs w = (Inl OSError, w)"

definition wire_close :: "wire \<Rightarrow> (error + unit) \<times> wire" where
  "wire_close w = (Inr (), w)"

definition wire_platform :: "library \<Rightarrow> wire platform" where
  "wire_platform L =
     \<lparr>json_dumps = json_dumps L, json_loads = json_loads L, getpid = getpid L,
      uuid4_str = uuid4_str L,
      write_impl = wire_write, recv_impl = wire_recv, close_impl = wire_close\<rparr>"

definition echo_platform :: "library \<Rightarrow> wire platform" where
  "echo_platform L = (wire_platform L)\<lparr>write_impl := echo_write\<rparr>"

definition broken_platform :: "library \<Rightarrow> wire platform" where
  "broken_platform L = (wire_platform L)\<lparr>write_impl := broken_write\<rparr>"

text \<open>The calls in a list are all calls of \<^verbatim>\<open>_recv\<close>.\<close>

definition only_recvs :: "event list \<Rightarrow> bool" where
  "only_recvs es = list_all (\<lambda>e. case e of Recv k \<Rightarrow> True | _ \<Rightarrow> False) es"

definition fresh :: "'s \<Rightarrow> 's conn" where
  "fresh s = \<lparr>inner = s, calls = [], drawn = 0\<rparr>"

definition peer_sent :: "byte list \<Rightarrow> wire conn" where
  "peer_sent bs = fresh \<lparr>incoming = bs, limits = [], outgoing = []\<rparr>"

text \<open>
  A stand-in for the \<^verbatim>\<open>json\<close> module, \<^verbatim>\<open>os.getpid\<close> and \<^verbatim>\<open>uuid.uuid4\<close> at the few
  values the concrete runs below use. It is a table: the bytes of each text are what
  \<^verbatim>\<open>json.dumps\<close> with the compact separators gives for the value beside it, and the
  values are what \<^verbatim>\<open>json.loads\<close> gives for these texts. Every other value is written
  as \<^verbatim>\<open>null\<close> and every other text is refused; no theorem below says anything about
  the real module at those. The process id is 4242 and the \<open>k\<close>-th identifier is
  \<^verbatim>\<open>uuid-k\<close>.
\<close>

definition ascii :: "string \<Rightarrow> byte list" where
  "ascii s = map of_char s"

definition quoted :: "string \<Rightarrow> string" where
  "quoted s = [CHR 0x22] @ s @ [CHR 0x22]"

definition ready_value :: json where
  "ready_value = JObj [(''cmd'', JStr ''DISPATCH''), (''evt'', JStr ''READY'')]"

definition ready_text :: string where
  "ready_text = ''{'' @ quoted ''cmd'' @ '':'' @ quoted ''DISPATCH'' @ '',''
     @ quoted ''evt'' @ '':'' @ quoted ''READY'' @ ''}''"

definition dispatch_value :: json where
  "dispatch_value = JObj [(''cmd'', JStr ''DISPATCH'')]"

definition dispatch_text :: string where
  "dispatch_text = ''{'' @ quoted ''cmd'' @ '':'' @ quoted ''DISPATCH'' @ ''}''"

definition sample_client_id :: json where
  "sample_client_id = JStr ''797139388513386546''"

definition handshake_value :: json where
  "handshake_value = JObj [(''v'', JInt 1), (''client_id'', sample_client_id)]"

definition handshake_text :: string where
  "handshake_text = ''{'' @ quoted ''v'' @ '':1,'' @ quoted ''client_id'' @ '':''
     @ quoted ''797139388513386546'' @ ''}''"

definition sample_activity :: json where
  "sample_activity = JObj [(''state'', JStr ''x'')]"

definition envelope_value :: "nat \<Rightarrow> json" where
  "envelope_value k =
     JObj [(''cmd'', JStr ''SET_ACTIVITY''),
           (''args'', JObj [(''pid'', JInt 4242), (''activity'', sample_activity)]),
           (''nonce'', JStr (''uuid-'' @ str_nat k))]"

definition envelope_text :: "nat \<Rightarrow> string" where
  "envelope_text k = ''{'' @ quoted ''cmd'' @ '':'' @ quoted ''SET_ACTIVITY'' @ '',''
     @ quoted ''args'' @ '':{'' @ quoted ''pid'' @ '':4242,'' @ quoted ''activity'' @ '':{''
     @ quoted ''state'' @ '':'' @ quoted ''x'' @ ''}},'' @ quoted ''nonce'' @ '':''
     @ quoted (''uuid-'' @ str_nat k) @ ''}''"

definition sample_dumps :: "json \<Rightarrow> byte list" where
  "sample_dumps d =
     (if d = JObj [] then ascii ''{}''
      else if d = dispatch_value then ascii dispatch_text
      else if d = ready_value then ascii ready_text
      else if d = handshake_value then ascii handshake_text
      else if d = envelope_value 0 then ascii (envelope_text 0)
      else if d = envelope_value 1 then ascii (envelope_text 1)
      else ascii ''null'')"

definition sample_loads :: "byte list \<Rightarrow> error + json" where
  "sample_loads b =
     (if b = ascii ''{}'' then Inr (JObj [])
      else if b = ascii dispatch_text then Inr dispatch_value
      else if b = ascii ready_text then Inr ready_value
      else Inl JSONDecodeError)"

definition sample_library :: library where
  "sample_library =
     \<lparr>json_dumps = sample_dumps, json_loads = sample_loads, getpid = 4242,
      uuid4_str = (\<lambda>k. ''uuid-'' @ str_nat k)\<rparr>"

text \<open>An operating system in which no pipe can be opened and no socket path exists.\<close>

definition no_discord :: "string list os" where
  "no_discord =
     \<lparr>os_open = (\<lambda>p w. (Inl OSError, w @ [p])),
      file_write = (\<lambda>h bs w. (Inl OSError, w)),
      file_flush = (\<lambda>h w. (Inl OSError, w)),
      file_read = (\<lambda>h sz w. (Inl OSError, w)),
      file_close = (\<lambda>h w. (Inl OSError, w)),
      environ = Map.empty,
      path_exists = (\<lambda>p w. False),
      socket_new = (\<lambda>w. (Inr 3, w)),
      sock_connect = (\<lambda>h p w. (Inl OSError, w @ [p])),
      sock_sendall = (\<lambda>h bs w. (Inl OSError, w)),
      sock_recv = (\<lambda>h sz w. (Inl OSError, w)),
      sock_close = (\<lambda>h w. (Inr (), w))\<rparr>"

text \<open>The two subclasses before \<^verbatim>\<open>__init__\<close> has run, on that operating system.\<close>

definition win0 :: "string list win" where
  "win0 = \<lparr>win_f = None, win_path = None, win_os = []\<rparr>"

definition unix0 :: "string list unix" where
  "unix0 = \<lparr>unix_sock = None, unix_os = []\<rparr>"

text \<open>
  An operating system in which only the pipe of index 7 can be opened, and a peer whose
  bytes arrive in chunks of the given sizes.
\<close>

definition only_seven :: "string list os" where
  "only_seven = no_discord\<lparr>os_open :=
     (\<lambda>p w. if p = win_pipe_path 7 then (Inr 5, w @ [p]) else (Inl OSError, w @ [p]))\<rparr>"

definition chunked :: "byte list \<Rightarrow> nat list \<Rightarrow> wire conn" where
  "chunked bs ls = fresh \<lparr>incoming = bs, limits = ls, outgoing = []\<rparr>"

subsection \<open>The wire format and the presence envelope as the specification words them\<close>

text \<open>
  These two definitions follow the specification, not the code; the theorems below
  compare what the code writes with them. A frame is the opcode as an unsigned 32-bit
  little-endian integer, the payload length as an unsigned 32-bit little-endian integer,
  and then the payload bytes. The envelope of \<^verbatim>\<open>set_activity\<close> has the command name, the
  process id with the activity, and the nonce.
\<close>

definition spec_frame :: "int \<Rightarrow> byte list \<Rightarrow> byte list" where
  "spec_frame op payload = pack_I op @ pack_I (int (length payload)) @ payload"


section \<open>Properties\<close>

declare str_nat.simps [simp del]

subsection \<open>Packing\<close>

lemma length_pack_I: "length (pack_I x) = 4"
  by (simp add: pack_I_def)

lemma uint_byte: "uint (word_of_int k :: byte) = k mod 256"
  by (simp add: uint_word_of_int)

lemma base256:
  fixes x :: int
  assumes "0 \<le> x" "x < 4294967296"
  shows "x mod 256 + 256 * (x div 256 mod 256) + 65536 * (x div 65536 mod 256)
         + 16777216 * (x div 16777216 mod 256) = x"
proof -
  define a where "a = x div 256"
  define b where "b = a div 256"
  define d where "d = b div 256"
  have xa: "x = x mod 256 + 256 * a" unfolding a_def by simp
  have ab: "a = a mod 256 + 256 * b" unfolding b_def by simp
  have bd: "b = b mod 256 + 256 * d" unfolding d_def by simp
  have b_eq: "x div 65536 = b"
    unfolding b_def a_def by (simp add: zdiv_zmult2_eq)
  have d_eq: "x div 16777216 = d"
    unfolding d_def b_def a_def by (simp add: zdiv_zmult2_eq)
  have "0 \<le> d" unfolding d_eq[symmetric] using assms(1) by (simp add: pos_imp_zdiv_nonneg_iff)
  moreover have "d < 256" unfolding d_eq[symmetric] using assms(2) by simp
  ultimately have dm: "d mod 256 = d" by simp
  have "x mod 256 + 256 * (a mod 256) + 65536 * (b mod 256) + 16777216 * d = x"
    using xa ab bd by linarith
  then show ?thesis unfolding b_eq d_eq dm a_def[symmetric] .
qed

lemma nth_pack_I:
  "pack_I x ! 0 = word_of_int x" "pack_I x ! 1 = word_of_int (x div 256)"
  "pack_I x ! 2 = word_of_int (x div 65536)" "pack_I x ! 3 = word_of_int (x div 16777216)"
  by (simp_all add: pack_I_def numeral_2_eq_2 numeral_3_eq_3)

lemma unpack_pack_I_raw:
  "unpack_I (pack_I x) = x mod 256 + 256 * (x div 256 mod 256) + 65536 * (x div 65536 mod 256)
         + 16777216 * (x div 16777216 mod 256)"
  unfolding unpack_I_def nth_pack_I uint_byte ..

lemma unpack_pack_I:
  assumes "0 \<le> x" "x < 4294967296"
  shows "unpack_I (pack_I x) = x"
  unfolding unpack_pack_I_raw using assms by (rule base256)

lemma two32: "(2::int) ^ 32 = 4294967296"
  by simp

lemma struct_pack_II_Inr:
  "struct_pack_II a b = Inr h \<longleftrightarrow>
     0 \<le> a \<and> a < 4294967296 \<and> 0 \<le> b \<and> b < 4294967296 \<and> h = pack_I a @ pack_I b"
  unfolding struct_pack_II_def two32 by auto

lemma struct_unpack_pack:
  assumes "0 \<le> a" "a < 4294967296" "0 \<le> b" "b < 4294967296"
  shows "struct_unpack_II (pack_I a @ pack_I b) = Inr (a, b)"
  using assms by (simp add: struct_unpack_II_def length_pack_I unpack_pack_I)

subsection \<open>The read loop\<close>

lemma recv_loop_0: "recv_loop P buf 0 c = Some (Inr buf, c)"
  by (subst recv_loop.simps) simp

lemma recv_loop_step:
  "n \<noteq> 0 \<Longrightarrow> recv_loop P buf n c =
     (case recv_call P n c of
        (Inl e, c') \<Rightarrow> Some (Inl e, c')
      | (Inr chunk, c') \<Rightarrow> recv_loop P (buf @ chunk) (n - int (length chunk)) c')"
  by (subst recv_loop.simps) simp

lemma wire_recv_eq:
  "wire_recv sz w = (Inr (take (chunk_len sz w) (incoming w)),
     w\<lparr>incoming := drop (chunk_len sz w) (incoming w), limits := tl (limits w)\<rparr>)"
  by (simp add: wire_recv_def Let_def)

lemma chunk_len_bounds: "0 < n \<Longrightarrow> 0 < chunk_len n w \<and> chunk_len n w \<le> nat n"
  by (auto simp: chunk_len_def split: list.splits)

lemma recv_loop_wire_returns_aux:
  assumes r: "recv_loop P buf n c = Some r"
  shows "recv_impl P = wire_recv \<longrightarrow> 0 \<le> n \<and> nat n \<le> length (incoming (inner c))"
proof (rule recv_loop.raw_induct[where Pa = "\<lambda>x r. recv_impl (fst (fst (fst x))) = wire_recv \<longrightarrow> 0 \<le> snd (fst x) \<and> nat (snd (fst x)) \<le> length (incoming (inner (snd x)))" and P = P and buf = buf and size_remaining = n and c = c and y = r, unfolded fst_conv snd_conv])
  show "recv_loop P buf n c = Some r" by (rule r)
next
  fix f :: "wire platform \<Rightarrow> byte list \<Rightarrow> int \<Rightarrow> wire conn \<Rightarrow> ((error + byte list) \<times> wire conn) option"
    and P buf n c r
  assume IH: "\<And>P buf n c r. f P buf n c = Some r \<Longrightarrow>
      recv_impl P = wire_recv \<longrightarrow> 0 \<le> n \<and> nat n \<le> length (incoming (inner c))"
    and step: "(if n \<noteq> 0
        then case recv_call P n c of
             (Inl e, c') \<Rightarrow> Some (Inl e, c')
             | (Inr chunk, c') \<Rightarrow> f P (buf @ chunk) (n - int (length chunk)) c'
        else Some (Inr buf, c)) = Some r"
  show "recv_impl P = wire_recv \<longrightarrow> 0 \<le> n \<and> nat n \<le> length (incoming (inner c))"
  proof
    assume W: "recv_impl P = wire_recv"
    show "0 \<le> n \<and> nat n \<le> length (incoming (inner c))"
    proof (cases "n = 0")
      case True
      then show ?thesis by simp
    next
      case False
      define k where "k = chunk_len n (inner c)"
      define c' where "c' = c\<lparr>inner := (inner c)\<lparr>incoming := drop k (incoming (inner c)), limits := tl (limits (inner c))\<rparr>, calls := calls c @ [Recv n]\<rparr>"
      have rc: "recv_call P n c = (Inr (take k (incoming (inner c))), c')"
        by (simp add: recv_call_def W wire_recv_eq k_def c'_def)
      from step False rc
      have "f P (buf @ take k (incoming (inner c))) (n - int (length (take k (incoming (inner c))))) c' = Some r"
        by simp
      from IH[OF this] W
      have *: "0 \<le> n - int (length (take k (incoming (inner c))))"
         "nat (n - int (length (take k (incoming (inner c))))) \<le> length (incoming (inner c'))"
        by simp_all
      have len': "length (incoming (inner c')) = length (incoming (inner c)) - k"
        by (simp add: c'_def)
      show ?thesis using * unfolding len' by (auto simp: min_def split: if_splits)
    qed
  qed
qed

lemma only_recvs_simps [simp]:
  "only_recvs []" "only_recvs (Recv k # es) = only_recvs es"
  "only_recvs (es @ fs) = (only_recvs es \<and> only_recvs fs)"
  by (simp_all add: only_recvs_def)

lemma recv_loop_wire:
  assumes W: "recv_impl P = wire_recv"
  shows "0 \<le> n \<Longrightarrow> nat n \<le> length (incoming (inner c)) \<Longrightarrow>
    \<exists>c' es. recv_loop P buf n c = Some (Inr (buf @ take (nat n) (incoming (inner c))), c')
       \<and> incoming (inner c') = drop (nat n) (incoming (inner c))
       \<and> outgoing (inner c') = outgoing (inner c)
       \<and> drawn c' = drawn c \<and> calls c' = calls c @ es \<and> only_recvs es"
proof (induction "nat n" arbitrary: n buf c rule: less_induct)
  case less
  show ?case
  proof (cases "n = 0")
    case True
    then show ?thesis by (simp add: recv_loop_0)
  next
    case False
    with less.prems have pos: "0 < n" by simp
    define k where "k = chunk_len n (inner c)"
    define c1 where "c1 = c\<lparr>inner := (inner c)\<lparr>incoming := drop k (incoming (inner c)), limits := tl (limits (inner c))\<rparr>, calls := calls c @ [Recv n]\<rparr>"
    have kb: "0 < k" "k \<le> nat n" using chunk_len_bounds[OF pos] by (simp_all add: k_def)
    have rc: "recv_call P n c = (Inr (take k (incoming (inner c))), c1)"
      by (simp add: recv_call_def W wire_recv_eq k_def c1_def)
    have lk: "min (length (incoming (inner c))) k = k"
      using kb less.prems by simp
    have step: "recv_loop P buf n c = recv_loop P (buf @ take k (incoming (inner c))) (n - int k) c1"
      using False by (simp add: recv_loop_step rc lk)
    have m: "nat (n - int k) < nat n" "0 \<le> n - int k" using kb pos by linarith+
    have fit: "nat (n - int k) \<le> length (incoming (inner c1))"
      using less.prems kb by (simp add: c1_def)
    from less.hyps[OF m(1) m(2) fit, of "buf @ take k (incoming (inner c))"]
    obtain c' es where
      r: "recv_loop P (buf @ take k (incoming (inner c))) (n - int k) c1 =
            Some (Inr ((buf @ take k (incoming (inner c))) @ take (nat (n - int k)) (incoming (inner c1))), c')"
      and i: "incoming (inner c') = drop (nat (n - int k)) (incoming (inner c1))"
      and o: "outgoing (inner c') = outgoing (inner c1)"
      and d: "drawn c' = drawn c1" and cs: "calls c' = calls c1 @ es" and rs: "only_recvs es"
      by blast
    have nk: "nat n = k + nat (n - int k)" using kb pos by linarith
    have t: "take k (incoming (inner c)) @ take (nat (n - int k)) (incoming (inner c1))
             = take (nat n) (incoming (inner c))"
      unfolding nk[symmetric, THEN arg_cong[where f="\<lambda>j. take j (incoming (inner c))"]]
      by (simp add: c1_def take_add[symmetric] nk[symmetric])
    have dr: "drop (nat (n - int k)) (incoming (inner c1)) = drop (nat n) (incoming (inner c))"
      by (simp add: c1_def nk[symmetric] add.commute)
    show ?thesis
      apply (rule exI[where x=c'], rule exI[where x="Recv n # es"])
      using r i o d cs rs t dr step by (simp add: c1_def)
  qed
qed

subsection \<open>send\<close>

lemma send_fits:
  assumes "0 \<le> op" "op < 4294967296" "length (json_dumps P d) < 4294967296"
  shows "send P d op c =
    write_call P (pack_I op @ pack_I (int (length (json_dumps P d))) @ json_dumps P d) c"
  using assms by (simp add: send_def struct_pack_II_def Let_def)

lemma send_too_long:
  assumes "\<not> length (json_dumps P d) < 4294967296"
  shows "send P d op c = (Inl StructError, c)"
  using assms by (simp add: send_def struct_pack_II_def Let_def)

lemma write_call_calls: "calls (snd (write_call P bs c)) = calls c @ [Write bs]"
  by (simp add: write_call_def split: prod.splits)


lemma close_call_calls: "calls (snd (close_call P c)) = calls c @ [Close]"
  by (simp add: close_call_def split: prod.splits)

lemma send_calls:
  "calls (snd (send P d op c)) = calls c \<or>
   (\<exists>bs. calls (snd (send P d op c)) = calls c @ [Write bs])"
  by (simp add: send_def Let_def write_call_calls split: sum.splits)

lemma close_calls: "calls (snd (close P c)) = calls (snd (send P (JObj []) OP_CLOSE c)) @ [Close]"
proof -
  obtain r c1 where s: "send P (JObj []) OP_CLOSE c = (r, c1)" by (cases "send P (JObj []) OP_CLOSE c")
  obtain r' c2 where k: "close_call P c1 = (r', c2)" by (cases "close_call P c1")
  have "calls c2 = calls c1 @ [Close]" using close_call_calls[of P c1] k by simp
  then show ?thesis by (simp add: close_def s k split: sum.splits)
qed

subsection \<open>recv on a byte stream\<close>

lemma recv_wire_frame:
  assumes W: "recv_impl P = wire_recv"
    and inc: "incoming (inner c) = pack_I op @ pack_I (int (length payload)) @ payload @ rest"
    and op: "0 \<le> op" "op < 4294967296" and len: "length payload < 4294967296"
  shows "\<exists>c' es. recv P c =
            Some ((case json_loads P payload of Inl e \<Rightarrow> Inl e | Inr d \<Rightarrow> Inr (op, d)), c')
          \<and> incoming (inner c') = rest \<and> outgoing (inner c') = outgoing (inner c)
          \<and> drawn c' = drawn c \<and> calls c' = calls c @ es \<and> only_recvs es"
proof -
  have l8: "nat 8 \<le> length (incoming (inner c))" by (simp add: inc length_pack_I)
  from recv_loop_wire[OF W _ l8, of "[]"]
  obtain c1 es1 where
    h: "recv_exactly P 8 c = Some (Inr (pack_I op @ pack_I (int (length payload))), c1)"
    and i1: "incoming (inner c1) = payload @ rest"
    and o1: "outgoing (inner c1) = outgoing (inner c)" and d1: "drawn c1 = drawn c"
    and cs1: "calls c1 = calls c @ es1" and r1: "only_recvs es1"
    by (auto simp: recv_exactly_def inc length_pack_I)
  have hd: "recv_header P c = Some (Inr (op, int (length payload)), c1)"
    using op len by (simp add: recv_header_def h struct_unpack_pack)
  have lp: "nat (int (length payload)) \<le> length (incoming (inner c1))" by (simp add: i1)
  from recv_loop_wire[OF W _ lp, of "[]"]
  obtain c2 es2 where
    p: "recv_exactly P (int (length payload)) c1 = Some (Inr payload, c2)"
    and i2: "incoming (inner c2) = rest"
    and o2: "outgoing (inner c2) = outgoing (inner c1)" and d2: "drawn c2 = drawn c1"
    and cs2: "calls c2 = calls c1 @ es2" and r2: "only_recvs es2"
    by (auto simp: recv_exactly_def i1)
  have "recv P c = Some ((case json_loads P payload of Inl e \<Rightarrow> Inl e | Inr d \<Rightarrow> Inr (op, d)), c2)"
    by (simp add: recv_def hd p split: sum.splits)
  then show ?thesis
    apply (intro exI[where x = c2] exI[where x = "es1 @ es2"])
    using i2 o1 o2 d1 d2 cs1 cs2 r1 r2 by simp
qed

subsection \<open>The sample transports and library\<close>

lemma wire_platform_recv: "recv_impl (wire_platform L) = wire_recv"
  by (simp add: wire_platform_def)

lemma echo_platform_recv: "recv_impl (echo_platform L) = wire_recv"
  by (simp add: echo_platform_def wire_platform_def)

lemma sample_dumps_empty: "sample_dumps (JObj []) = ascii ''{}''"
  by (simp add: sample_dumps_def)

lemma sample_dumps_handshake: "sample_dumps handshake_value = ascii handshake_text"
  by (simp add: sample_dumps_def handshake_value_def dispatch_value_def ready_value_def)

lemma str_nat_0_1: "str_nat 0 = ''0''" "str_nat (Suc 0) = ''1''"
  by code_simp+


lemma sample_loads_empty: "sample_loads (ascii ''{}'') = Inr (JObj [])"
  by (simp add: sample_loads_def)

lemma sample_loads_dispatch: "sample_loads (ascii dispatch_text) = Inr dispatch_value"
  by (simp add: sample_loads_def dispatch_text_def ascii_def quoted_def)

lemma sample_loads_ready: "sample_loads (ascii ready_text) = Inr ready_value"
  by (simp add: sample_loads_def dispatch_text_def ready_text_def ascii_def quoted_def)

lemma length_ascii: "length (ascii s) = length s"
  by (simp add: ascii_def)

lemma sample_library_sel:
  "json_dumps sample_library = sample_dumps" "json_loads sample_library = sample_loads"
  "getpid sample_library = 4242" "uuid4_str sample_library k = ''uuid-'' @ str_nat k"
  by (simp_all add: sample_library_def)

lemma wire_platform_sel:
  "json_dumps (wire_platform L) = json_dumps L" "json_loads (wire_platform L) = json_loads L"
  "getpid (wire_platform L) = getpid L" "uuid4_str (wire_platform L) = uuid4_str L"
  "write_impl (wire_platform L) = wire_write" "close_impl (wire_platform L) = wire_close"
  by (simp_all add: wire_platform_def)

subsection \<open>\<^verbatim>\<open>close\<close>, \<^verbatim>\<open>send\<close> and \<^verbatim>\<open>recv\<close> over the byte-stream peer\<close>

lemma close_call_inner: "inner (snd (close_call P c)) = snd (close_impl P (inner c))"
  by (simp add: close_call_def split: prod.splits)

lemma close_call_drawn: "drawn (snd (close_call P c)) = drawn c"
  by (simp add: close_call_def split: prod.splits)

lemma close_state: "snd (close P c) = snd (close_call P (snd (send P (JObj []) OP_CLOSE c)))"
proof -
  obtain r c1 where s: "send P (JObj []) OP_CLOSE c = (r, c1)" by (cases "send P (JObj []) OP_CLOSE c")
  obtain r' c2 where k: "close_call P c1 = (r', c2)" by (cases "close_call P c1")
  show ?thesis by (simp add: close_def s k split: sum.splits)
qed

lemma write_call_inner: "inner (snd (write_call P bs c)) = snd (write_impl P bs (inner c))"
  by (simp add: write_call_def split: prod.splits)

lemma send_inner:
  "inner (snd (send P d op c)) = inner c \<and> calls (snd (send P d op c)) = calls c
   \<or> (\<exists>bs. inner (snd (send P d op c)) = snd (write_impl P bs (inner c))
          \<and> calls (snd (send P d op c)) = calls c @ [Write bs])"
  by (simp add: send_def Let_def write_call_inner write_call_calls split: sum.splits)

lemma close_calls_shape:
  "\<exists>ws. calls (snd (close P c)) = calls c @ ws @ [Close] \<and> Close \<notin> set ws"
proof -
  from send_calls[of P "JObj []" OP_CLOSE c]
  obtain ws where ws: "calls (snd (send P (JObj []) OP_CLOSE c)) = calls c @ ws" "Close \<notin> set ws"
    by (elim disjE exE) (force intro: that[of "[]"], force intro: that)
  have "calls (snd (close P c)) = calls c @ ws @ [Close]"
    by (simp add: close_calls ws)
  with ws(2) show ?thesis by blast
qed

lemma send_wire:
  assumes "0 \<le> op" "op < 4294967296" "length (json_dumps L d) < 4294967296"
  shows "send (wire_platform L) d op c =
    (Inr (), c\<lparr>inner := (inner c)\<lparr>outgoing := outgoing (inner c) @ spec_frame op (json_dumps L d)\<rparr>,
              calls := calls c @ [Write (spec_frame op (json_dumps L d))]\<rparr>)"
  using assms
  by (simp add: send_fits wire_platform_sel write_call_def wire_write_def spec_frame_def)

lemma send_recv_wire:
  assumes s: "0 \<le> op" "op < 4294967296" "length (json_dumps L d) < 4294967296"
    and inc: "incoming (inner c) = spec_frame op' payload @ rest"
    and r: "0 \<le> op'" "op' < 4294967296" "length payload < 4294967296"
  shows "\<exists>c'. send_recv (wire_platform L) d op c =
            Some ((case json_loads L payload of Inl e \<Rightarrow> Inl e | Inr v \<Rightarrow> Inr (op', v)), c')
          \<and> incoming (inner c') = rest
          \<and> (\<exists>es. calls c' = calls c @ Write (spec_frame op (json_dumps L d)) # es \<and> only_recvs es)"
proof -
  define c1 where "c1 = c\<lparr>inner := (inner c)\<lparr>outgoing := outgoing (inner c) @ spec_frame op (json_dumps L d)\<rparr>,
              calls := calls c @ [Write (spec_frame op (json_dumps L d))]\<rparr>"
  have snd: "send (wire_platform L) d op c = (Inr (), c1)"
    unfolding c1_def using s by (rule send_wire)
  have inc1: "incoming (inner c1) = pack_I op' @ pack_I (int (length payload)) @ payload @ rest"
    by (simp add: c1_def inc spec_frame_def)
  from recv_wire_frame[OF wire_platform_recv[of L] inc1 r]
  obtain c' es where "recv (wire_platform L) c1 =
      Some ((case json_loads L payload of Inl e \<Rightarrow> Inl e | Inr v \<Rightarrow> Inr (op', v)), c')"
    "incoming (inner c') = rest" "calls c' = calls c1 @ es" "only_recvs es"
    by (auto simp: wire_platform_sel)
  then show ?thesis
    by (auto simp: send_recv_def snd c1_def)
qed

lemma opcode_values:
  "[OP_HANDSHAKE, OP_FRAME, OP_CLOSE, OP_PING, OP_PONG] = [0, 1, 2, 3, 4]"
  by (simp add: OP_HANDSHAKE_def OP_FRAME_def OP_CLOSE_def OP_PING_def OP_PONG_def)

lemma pack_I_small: "0 \<le> x \<Longrightarrow> x < 256 \<Longrightarrow> pack_I x = [word_of_int x, 0, 0, 0]"
  by (simp add: pack_I_def)

subsection \<open>The handshake\<close>

lemma handshake_accepted_True:
  "handshake_accepted ret_op ret_data = Inr True \<longleftrightarrow>
     ret_op = OP_FRAME \<and> getitem ret_data ''cmd'' = Inr (JStr ''DISPATCH'')
     \<and> getitem ret_data ''evt'' = Inr (JStr ''READY'')"
  by (auto simp: handshake_accepted_def split: sum.splits)

lemma do_handshake_after:
  assumes "send_recv P (JObj [(''v'', JInt 1), (''client_id'', client_id)]) OP_HANDSHAKE c
             = Some (Inr (ret_op, ret_data), c1)"
  shows "do_handshake P client_id c =
     (case handshake_accepted ret_op ret_data of
        Inl e \<Rightarrow> Some (Inl e, c1)
      | Inr True \<Rightarrow> Some (Inr (), c1)
      | Inr False \<Rightarrow>
          (if ret_op = OP_CLOSE then
             (case close P c1 of
                (Inl e, c2) \<Rightarrow> Some (Inl e, c2)
              | (Inr u, c2) \<Rightarrow> Some (Inl (RuntimeError ret_data), c2))
           else Some (Inl (RuntimeError ret_data), c1)))"
  by (simp add: do_handshake_def assms)

lemma opcodes_distinct: "OP_CLOSE \<noteq> OP_FRAME"
  by (simp add: OP_CLOSE_def OP_FRAME_def)

lemma handshake_fits: "length (sample_dumps handshake_value) < 4294967296"
  by (simp add: sample_dumps_handshake length_ascii handshake_text_def quoted_def)

lemma handshake_on_wire:
  assumes "length payload < 4294967296" "0 \<le> op'" "op' < 4294967296"
  shows "\<exists>c1. send_recv (wire_platform sample_library)
            (JObj [(''v'', JInt 1), (''client_id'', sample_client_id)]) OP_HANDSHAKE
            (peer_sent (spec_frame op' payload))
         = Some ((case sample_loads payload of Inl e \<Rightarrow> Inl e | Inr v \<Rightarrow> Inr (op', v)), c1)"
proof -
  have i: "incoming (inner (peer_sent (spec_frame op' payload))) = spec_frame op' payload @ []"
    by (simp add: peer_sent_def fresh_def)
  have f: "length (json_dumps sample_library handshake_value) < 4294967296"
    by (simp add: sample_library_sel handshake_fits)
  from send_recv_wire[OF _ _ f i assms(2,3,1), of OP_HANDSHAKE]
  show ?thesis
    by (auto simp: OP_HANDSHAKE_def handshake_value_def sample_library_sel)
qed

subsection \<open>\<^verbatim>\<open>set_activity\<close>\<close>





lemma str_nat_digits:
  "str_nat 0 = ''0''" "str_nat 1 = ''1''" "str_nat 2 = ''2''" "str_nat 3 = ''3''"
  "str_nat 4 = ''4''" "str_nat 5 = ''5''" "str_nat 6 = ''6''" "str_nat 7 = ''7''"
  "str_nat 8 = ''8''" "str_nat 9 = ''9''"
  by code_simp+

subsection \<open>\<^verbatim>\<open>_connect\<close> where Discord is not running\<close>

lemma win_connect_no_discord:
  "win_connect no_discord win0 =
     (Inr (Some (DiscordIpcError ''Failed to connect to Discord pipe'')),
      win0\<lparr>win_os := map win_pipe_path range10\<rparr>)"
  by (simp add: win_connect_def range10_def no_discord_def win0_def Let_def)

lemma unix_connect_no_discord:
  "unix_connect no_discord unix0 =
     (Inr (Some (DiscordIpcError ''Failed to connect to Discord pipe'')),
      \<lparr>unix_sock = Some 3, unix_os = []\<rparr>)"
  by (simp add: unix_connect_def range10_def no_discord_def unix0_def Let_def
      unix_format_def get_pipe_pattern_def)


section \<open>The claims\<close>

subsection \<open>The exact-read loop\<close>

text \<open>
  Claim C1 says that \<^verbatim>\<open>_recv_exactly\<close> ends with a connection-closed error when a read
  returns no bytes before the count is reached. The loop has no such test: an empty
  chunk leaves \<^verbatim>\<open>size_remaining\<close> as it was and the loop reads again. Here the peer
  sends three of the eight header bytes and hangs up, after which every \<^verbatim>\<open>_recv\<close>
  returns the empty byte string: \<^verbatim>\<open>_recv_exactly(8)\<close> never returns and never raises.
  (By \<open>recv_loop_wire_returns_aux\<close> and \<open>recv_loop_wire\<close> the loop returns on such a
  peer exactly when at least the requested number of bytes arrive.)
\<close>

theorem recv_exactly_never_returns_after_hangup:
  "recv_exactly (wire_platform sample_library) 8 (peer_sent [1, 0, 0]) = None"
proof (cases "recv_exactly (wire_platform sample_library) 8 (peer_sent [1, 0, 0])")
  case None
  then show ?thesis .
next
  case (Some r)
  then have "recv_loop (wire_platform sample_library) [] 8 (peer_sent [1, 0, 0]) = Some r"
    by (simp add: recv_exactly_def)
  from recv_loop_wire_returns_aux[OF this]
  have "nat 8 \<le> length (incoming (inner (peer_sent [1, 0, 0])))"
    by (simp add: wire_platform_recv)
  then show ?thesis by (simp add: peer_sent_def fresh_def)
qed

subsection \<open>Connecting\<close>

text \<open>
  Claim C2 says that \<^verbatim>\<open>_connect\<close> raises a connection error when none of the ten
  candidates can be opened. Both \<^verbatim>\<open>_connect\<close> methods end their \<^verbatim>\<open>for ... else\<close> with
  \<^verbatim>\<open>return DiscordIpcError(...)\<close>: the exception object is returned, not raised. Where
  Discord is not running (every \<^verbatim>\<open>open\<close> raises \<^verbatim>\<open>OSError\<close>, no socket path exists),
  \<^verbatim>\<open>_connect\<close> returns normally, on Windows after trying the ten pipe names in order
  and leaving \<^verbatim>\<open>_f\<close> unassigned; \<^verbatim>\<open>__init__\<close> goes on to the handshake, whose first
  write raises \<^verbatim>\<open>AttributeError\<close> on Windows and the \<^verbatim>\<open>OSError\<close> of \<^verbatim>\<open>sendall\<close> on an
  unconnected socket on Unix.
\<close>

theorem connect_returns_the_error_it_should_raise:
  "win_connect no_discord win0 =
     (Inr (Some (DiscordIpcError ''Failed to connect to Discord pipe'')),
      win0\<lparr>win_os := map win_pipe_path range10\<rparr>)
   \<and> map_option fst (WinDiscordIpcClient no_discord sample_library sample_client_id (fresh win0))
       = Some (Inl AttributeError)
   \<and> unix_connect no_discord unix0 =
     (Inr (Some (DiscordIpcError ''Failed to connect to Discord pipe'')),
      \<lparr>unix_sock = Some 3, unix_os = []\<rparr>)
   \<and> map_option fst (UnixDiscordIpcClient no_discord sample_library sample_client_id (fresh unix0))
       = Some (Inl OSError)"
proof -
  have w: "map_option fst (WinDiscordIpcClient no_discord sample_library sample_client_id
        (fresh win0)) = Some (Inl AttributeError)"
    apply (simp add: WinDiscordIpcClient_def init_def fresh_def win_connect_no_discord)
    apply (simp add: do_handshake_def send_recv_def handshake_value_def[symmetric]
        send_fits handshake_fits OP_HANDSHAKE_def win_platform_def sample_library_sel
        write_call_def win_write_def win0_def)
    done
  have u: "map_option fst (UnixDiscordIpcClient no_discord sample_library sample_client_id
        (fresh unix0)) = Some (Inl OSError)"
    apply (simp add: UnixDiscordIpcClient_def init_def fresh_def unix_connect_no_discord)
    apply (simp add: do_handshake_def send_recv_def handshake_value_def[symmetric]
        send_fits handshake_fits OP_HANDSHAKE_def unix_platform_def sample_library_sel
        write_call_def unix_write_def no_discord_def)
    done
  show ?thesis using w u win_connect_no_discord unix_connect_no_discord by simp
qed

subsection \<open>\<^verbatim>\<open>close\<close>\<close>

text \<open>
  Claim C3 as stated fails: \<^verbatim>\<open>close()\<close> has a \<^verbatim>\<open>try ... finally\<close> and no \<^verbatim>\<open>except\<close>. On a
  transport whose \<^verbatim>\<open>_write\<close> raises \<^verbatim>\<open>OSError\<close> and whose \<^verbatim>\<open>_close\<close> returns, the caller
  of \<^verbatim>\<open>close()\<close> gets the \<^verbatim>\<open>OSError\<close> of the Close-frame \<^verbatim>\<open>send\<close>.
\<close>

theorem close_send_error_counterexample:
  "fst (close (broken_platform sample_library) (peer_sent [])) = Inl OSError"
  by (simp add: close_def send_def struct_pack_II_def Let_def write_call_def close_call_def
      broken_platform_def wire_platform_def broken_write_def wire_close_def
      sample_library_def sample_dumps_empty ascii_def peer_sent_def fresh_def OP_CLOSE_def)

text \<open>
  Claim C3, amended. When the Close-frame \<^verbatim>\<open>send\<close> raises \<open>e\<close>, \<^verbatim>\<open>close()\<close> still runs
  \<^verbatim>\<open>_close\<close> and then raises: \<open>e\<close> itself when \<^verbatim>\<open>_close\<close> returned, the exception of
  \<^verbatim>\<open>_close\<close> when \<^verbatim>\<open>_close\<close> raised. The state it leaves is the one \<^verbatim>\<open>_close\<close> left.
\<close>

theorem close_reraises_send_error:
  assumes "send P (JObj []) OP_CLOSE c = (Inl e, c1)"
  shows "(fst (close_call P c1) = Inr () \<longrightarrow> fst (close P c) = Inl e)
       \<and> (\<forall>e'. fst (close_call P c1) = Inl e' \<longrightarrow> fst (close P c) = Inl e')
       \<and> snd (close P c) = snd (close_call P c1)"
  using assms by (cases "close_call P c1") (auto simp: close_def split: sum.splits)

theorem close_reraises_send_error_witness:
  "send (broken_platform sample_library) (JObj []) OP_CLOSE (peer_sent [])
     = (Inl OSError, (peer_sent [])\<lparr>calls := [Write (pack_I 2 @ pack_I 2 @ ascii ''{}'')]\<rparr>)
   \<and> fst (close_call (broken_platform sample_library)
        ((peer_sent [])\<lparr>calls := [Write (pack_I 2 @ pack_I 2 @ ascii ''{}'')]\<rparr>)) = Inr ()
   \<and> fst (close (broken_platform sample_library) (peer_sent [])) = Inl OSError"
proof -
  have s: "send (broken_platform sample_library) (JObj []) OP_CLOSE (peer_sent [])
     = (Inl OSError, (peer_sent [])\<lparr>calls := [Write (pack_I 2 @ pack_I 2 @ ascii ''{}'')]\<rparr>)"
    by (simp add: send_def struct_pack_II_def Let_def write_call_def
      broken_platform_def wire_platform_def broken_write_def
      sample_library_def sample_dumps_empty ascii_def peer_sent_def fresh_def OP_CLOSE_def)
  have k: "fst (close_call (broken_platform sample_library)
        ((peer_sent [])\<lparr>calls := [Write (pack_I 2 @ pack_I 2 @ ascii ''{}'')]\<rparr>)) = Inr ()"
    by (simp add: close_call_def broken_platform_def wire_platform_def wire_close_def)
  from close_reraises_send_error[OF s] k s show ?thesis by simp
qed

text \<open>
  Claim C4. Every call of \<^verbatim>\<open>close()\<close> invokes the transport's \<^verbatim>\<open>_close\<close> exactly once,
  whether the Close-frame \<^verbatim>\<open>send\<close> returned or raised. The transport is left in the
  state that one run of the subclass's \<^verbatim>\<open>_close\<close> (\<open>close_impl\<close>) produces from the state
  \<^verbatim>\<open>send\<close> left, and \<^verbatim>\<open>send\<close> itself touched the transport by at most one \<^verbatim>\<open>_write\<close>, never
  by a \<^verbatim>\<open>_close\<close>. In the record of calls, \<^verbatim>\<open>close()\<close> adds the calls of \<^verbatim>\<open>send\<close> (none of
  them a \<^verbatim>\<open>_close\<close>) followed by one \<^verbatim>\<open>_close\<close>, so the number of \<^verbatim>\<open>_close\<close> calls grows by
  one.
\<close>

theorem close_invokes_transport_close_once:
  "\<exists>ws. calls (snd (close P c)) = calls c @ ws @ [Close] \<and> Close \<notin> set ws
     \<and> count_list (calls (snd (close P c))) Close = Suc (count_list (calls c) Close)
     \<and> inner (snd (close P c)) = snd (close_impl P (inner (snd (send P (JObj []) OP_CLOSE c))))
     \<and> (inner (snd (send P (JObj []) OP_CLOSE c)) = inner c \<and> ws = []
         \<or> (\<exists>bs. inner (snd (send P (JObj []) OP_CLOSE c)) = snd (write_impl P bs (inner c))
               \<and> ws = [Write bs]))"
proof -
  let ?c1 = "snd (send P (JObj []) OP_CLOSE c)"
  have st: "snd (close P c) = snd (close_call P ?c1)" by (rule close_state)
  have cl: "calls (snd (close P c)) = calls ?c1 @ [Close]"
    unfolding st by (rule close_call_calls)
  have inn: "inner (snd (close P c)) = snd (close_impl P (inner ?c1))"
    unfolding st by (rule close_call_inner)
  from send_inner[of P "JObj []" OP_CLOSE c]
  show ?thesis
  proof (elim disjE conjE exE)
    assume a: "inner ?c1 = inner c" "calls ?c1 = calls c"
    show ?thesis
      by (rule exI[where x = "[]"]) (simp add: cl a inn)
  next
    fix bs
    assume a: "inner ?c1 = snd (write_impl P bs (inner c))" "calls ?c1 = calls c @ [Write bs]"
    show ?thesis
      by (rule exI[where x = "[Write bs]"]) (simp add: cl a inn)
  qed
qed

subsection \<open>The handshake\<close>

text \<open>
  Claim C5 as stated fails: not every rejected response ends in the handshake error
  carrying the payload. A response with opcode Frame whose payload is the empty
  object makes the acceptance test itself raise \<^verbatim>\<open>KeyError('cmd')\<close>.
\<close>

theorem handshake_empty_object_counterexample:
  "map_option fst (do_handshake (wire_platform sample_library) sample_client_id
      (peer_sent (spec_frame OP_FRAME (ascii ''{}'')))) = Some (Inl (KeyError ''cmd''))"
proof -
  have "length (ascii ''{}'') < 4294967296" by (simp add: length_ascii)
  from handshake_on_wire[OF this, of OP_FRAME]
  obtain c1 where "send_recv (wire_platform sample_library)
            (JObj [(''v'', JInt 1), (''client_id'', sample_client_id)]) OP_HANDSHAKE
            (peer_sent (spec_frame OP_FRAME (ascii ''{}''))) = Some (Inr (OP_FRAME, JObj []), c1)"
    by (auto simp: OP_FRAME_def sample_loads_empty)
  from do_handshake_after[OF this]
  show ?thesis by (simp add: handshake_accepted_def)
qed

text \<open>
  Claim C5, amended. Let the handshake exchange return the frame \<open>(ret_op, ret_data)\<close>.
  The handshake returns normally exactly when \<open>ret_op\<close> is Frame, \<^verbatim>\<open>ret_data['cmd']\<close> is
  \<^verbatim>\<open>'DISPATCH'\<close> and \<^verbatim>\<open>ret_data['evt']\<close> is \<^verbatim>\<open>'READY'\<close>, and then nothing more is
  called. When \<open>ret_op\<close> is Close it runs \<^verbatim>\<open>close()\<close>, which calls \<^verbatim>\<open>_close\<close> once, and
  raises: \<^verbatim>\<open>RuntimeError(ret_data)\<close> when \<^verbatim>\<open>close()\<close> returned, the exception of
  \<^verbatim>\<open>close()\<close> when that raised. When \<open>ret_op\<close> is neither Frame nor Close, or it is
  Frame and \<^verbatim>\<open>ret_data\<close> has a \<^verbatim>\<open>'cmd'\<close> other than \<^verbatim>\<open>'DISPATCH'\<close>, or a \<^verbatim>\<open>'cmd'\<close> equal
  to \<^verbatim>\<open>'DISPATCH'\<close> and an \<^verbatim>\<open>'evt'\<close> other than \<^verbatim>\<open>'READY'\<close>, it raises
  \<^verbatim>\<open>RuntimeError(ret_data)\<close> and calls nothing: the transport is not closed. (The
  remaining case, a failing lookup of \<^verbatim>\<open>'cmd'\<close> or \<^verbatim>\<open>'evt'\<close>, is claim C10.)
\<close>

theorem handshake_outcomes:
  assumes "send_recv P (JObj [(''v'', JInt 1), (''client_id'', client_id)]) OP_HANDSHAKE c
             = Some (Inr (ret_op, ret_data), c1)"
  shows "((\<exists>c'. do_handshake P client_id c = Some (Inr (), c'))
            \<longleftrightarrow> ret_op = OP_FRAME \<and> getitem ret_data ''cmd'' = Inr (JStr ''DISPATCH'')
                \<and> getitem ret_data ''evt'' = Inr (JStr ''READY''))
    \<and> (ret_op = OP_FRAME \<and> getitem ret_data ''cmd'' = Inr (JStr ''DISPATCH'')
          \<and> getitem ret_data ''evt'' = Inr (JStr ''READY'')
        \<longrightarrow> do_handshake P client_id c = Some (Inr (), c1))
    \<and> (ret_op = OP_CLOSE \<longrightarrow>
          (\<exists>e c2 ws. do_handshake P client_id c = Some (Inl e, c2)
             \<and> c2 = snd (close P c1)
             \<and> calls c2 = calls c1 @ ws @ [Close] \<and> Close \<notin> set ws
             \<and> (fst (close P c1) = Inr () \<longrightarrow> e = RuntimeError ret_data)
             \<and> (\<forall>e'. fst (close P c1) = Inl e' \<longrightarrow> e = e')))
    \<and> (ret_op \<noteq> OP_FRAME \<and> ret_op \<noteq> OP_CLOSE
        \<longrightarrow> do_handshake P client_id c = Some (Inl (RuntimeError ret_data), c1))
    \<and> (ret_op = OP_FRAME \<and> (\<exists>v. getitem ret_data ''cmd'' = Inr v \<and> v \<noteq> JStr ''DISPATCH'')
        \<longrightarrow> do_handshake P client_id c = Some (Inl (RuntimeError ret_data), c1))
    \<and> (ret_op = OP_FRAME \<and> getitem ret_data ''cmd'' = Inr (JStr ''DISPATCH'')
          \<and> (\<exists>v. getitem ret_data ''evt'' = Inr v \<and> v \<noteq> JStr ''READY'')
        \<longrightarrow> do_handshake P client_id c = Some (Inl (RuntimeError ret_data), c1))"
proof -
  note d = do_handshake_after[OF assms]
  have ok: "(\<exists>c'. do_handshake P client_id c = Some (Inr (), c'))
            \<longleftrightarrow> handshake_accepted ret_op ret_data = Inr True"
    unfolding d by (auto split: sum.splits bool.splits prod.splits)
  have acc: "handshake_accepted ret_op ret_data = Inr True
        \<Longrightarrow> do_handshake P client_id c = Some (Inr (), c1)"
    unfolding d by simp
  have cl: "\<exists>e c2 ws. do_handshake P client_id c = Some (Inl e, c2)
             \<and> c2 = snd (close P c1)
             \<and> calls c2 = calls c1 @ ws @ [Close] \<and> Close \<notin> set ws
             \<and> (fst (close P c1) = Inr () \<longrightarrow> e = RuntimeError ret_data)
             \<and> (\<forall>e'. fst (close P c1) = Inl e' \<longrightarrow> e = e')" if "ret_op = OP_CLOSE"
  proof -
    have f: "handshake_accepted OP_CLOSE ret_data = Inr False"
      by (simp add: handshake_accepted_def opcodes_distinct)
    obtain ws where ws: "calls (snd (close P c1)) = calls c1 @ ws @ [Close]" "Close \<notin> set ws"
      using close_calls_shape[of P c1] by blast
    show ?thesis
    proof (cases "close P c1")
      case (Pair r c2)
      then show ?thesis using ws that
        by (cases r) (auto simp: d f)
    qed
  qed
  have other: "do_handshake P client_id c = Some (Inl (RuntimeError ret_data), c1)"
    if "ret_op \<noteq> OP_FRAME" "ret_op \<noteq> OP_CLOSE"
    using that unfolding d by (simp add: handshake_accepted_def)
  have cmd: "do_handshake P client_id c = Some (Inl (RuntimeError ret_data), c1)"
    if "ret_op = OP_FRAME" "getitem ret_data ''cmd'' = Inr v" "v \<noteq> JStr ''DISPATCH''" for v
    using that unfolding d by (simp add: handshake_accepted_def opcodes_distinct[symmetric])
  have evt: "do_handshake P client_id c = Some (Inl (RuntimeError ret_data), c1)"
    if "ret_op = OP_FRAME" "getitem ret_data ''cmd'' = Inr (JStr ''DISPATCH'')"
      "getitem ret_data ''evt'' = Inr v" "v \<noteq> JStr ''READY''" for v
    using that unfolding d by (simp add: handshake_accepted_def opcodes_distinct[symmetric])
  show ?thesis
    using ok acc cl other cmd evt unfolding handshake_accepted_True by blast
qed

theorem handshake_outcomes_witness:
  "\<exists>c1. send_recv (wire_platform sample_library)
            (JObj [(''v'', JInt 1), (''client_id'', sample_client_id)]) OP_HANDSHAKE
            (peer_sent (spec_frame OP_FRAME (ascii ready_text)))
          = Some (Inr (OP_FRAME, ready_value), c1)
       \<and> do_handshake (wire_platform sample_library) sample_client_id
            (peer_sent (spec_frame OP_FRAME (ascii ready_text))) = Some (Inr (), c1)"
proof -
  have "length (ascii ready_text) < 4294967296"
    by (simp add: length_ascii ready_text_def quoted_def)
  from handshake_on_wire[OF this, of OP_FRAME]
  obtain c1 where s: "send_recv (wire_platform sample_library)
            (JObj [(''v'', JInt 1), (''client_id'', sample_client_id)]) OP_HANDSHAKE
            (peer_sent (spec_frame OP_FRAME (ascii ready_text)))
          = Some (Inr (OP_FRAME, ready_value), c1)"
    by (auto simp: OP_FRAME_def sample_loads_ready)
  have g: "getitem ready_value ''cmd'' = Inr (JStr ''DISPATCH'')"
    "getitem ready_value ''evt'' = Inr (JStr ''READY'')"
    by (simp_all add: ready_value_def)
  from handshake_outcomes[OF s] g s show ?thesis by blast
qed

text \<open>
  Claim C10. When the handshake response has opcode Frame and its payload is an object
  without the key \<^verbatim>\<open>'cmd'\<close>, or with \<^verbatim>\<open>'cmd'\<close> equal to \<^verbatim>\<open>'DISPATCH'\<close> and without the key
  \<^verbatim>\<open>'evt'\<close>, the handshake raises the \<^verbatim>\<open>KeyError\<close> of the missing key, not the
  \<^verbatim>\<open>RuntimeError\<close> carrying the payload, and leaves the client in the state the receive
  left it in: no call follows, so the transport is not closed.
\<close>

theorem handshake_missing_key_raises_KeyError:
  assumes "send_recv P (JObj [(''v'', JInt 1), (''client_id'', client_id)]) OP_HANDSHAKE c
             = Some (Inr (OP_FRAME, JObj kvs), c1)"
    and "map_of kvs ''cmd'' = None
         \<or> (map_of kvs ''cmd'' = Some (JStr ''DISPATCH'') \<and> map_of kvs ''evt'' = None)"
  shows "do_handshake P client_id c =
           Some (Inl (KeyError (if map_of kvs ''cmd'' = None then ''cmd'' else ''evt'')), c1)"
  using assms(2) unfolding do_handshake_after[OF assms(1)]
  by (auto simp: handshake_accepted_def)

theorem handshake_missing_key_raises_KeyError_witness:
  "\<exists>c1. send_recv (wire_platform sample_library)
            (JObj [(''v'', JInt 1), (''client_id'', sample_client_id)]) OP_HANDSHAKE
            (peer_sent (spec_frame OP_FRAME (ascii dispatch_text)))
          = Some (Inr (OP_FRAME, JObj [(''cmd'', JStr ''DISPATCH'')]), c1)
       \<and> map_of [(''cmd'', JStr ''DISPATCH'')] ''cmd'' = Some (JStr ''DISPATCH'')
       \<and> map_of [(''cmd'', JStr ''DISPATCH'')] ''evt'' = None
       \<and> do_handshake (wire_platform sample_library) sample_client_id
            (peer_sent (spec_frame OP_FRAME (ascii dispatch_text)))
          = Some (Inl (KeyError ''evt''), c1)"
proof -
  have "length (ascii dispatch_text) < 4294967296"
    by (simp add: length_ascii dispatch_text_def quoted_def)
  from handshake_on_wire[OF this, of OP_FRAME]
  obtain c1 where s: "send_recv (wire_platform sample_library)
            (JObj [(''v'', JInt 1), (''client_id'', sample_client_id)]) OP_HANDSHAKE
            (peer_sent (spec_frame OP_FRAME (ascii dispatch_text)))
          = Some (Inr (OP_FRAME, JObj [(''cmd'', JStr ''DISPATCH'')]), c1)"
    by (auto simp: OP_FRAME_def sample_loads_dispatch dispatch_value_def)
  have m: "map_of [(''cmd'', JStr ''DISPATCH'')] ''cmd'' = None
         \<or> (map_of [(''cmd'', JStr ''DISPATCH'')] ''cmd'' = Some (JStr ''DISPATCH'')
            \<and> map_of [(''cmd'', JStr ''DISPATCH'')] ''evt'' = None)"
    by simp
  from handshake_missing_key_raises_KeyError[OF s m] s show ?thesis by simp
qed

subsection \<open>Frames\<close>

text \<open>
  Claim C6. Let \<^verbatim>\<open>send\<close> of payload \<open>p\<close> with opcode \<open>op\<close> write the bytes \<open>bs\<close>, and let
  these bytes (followed by anything) arrive at a receiver over a byte stream that
  splits them into chunks in any way. If the receiver's \<^verbatim>\<open>json.loads\<close> inverts the
  sender's \<^verbatim>\<open>json.dumps\<close> at \<open>p\<close>, then \<^verbatim>\<open>recv\<close> returns exactly \<open>(op, p)\<close> and consumes
  exactly \<open>bs\<close>.
\<close>

theorem send_recv_roundtrip:
  assumes "calls (snd (send P p op c)) = calls c @ [Write bs]"
    and "recv_impl Q = wire_recv"
    and "incoming (inner d) = bs @ rest"
    and "json_loads Q (json_dumps P p) = Inr p"
  shows "\<exists>d'. recv Q d = Some (Inr (op, p), d') \<and> incoming (inner d') = rest"
proof -
  let ?payload = "json_dumps P p"
  obtain h where h: "struct_pack_II op (int (length ?payload)) = Inr h"
    using assms(1) by (cases "struct_pack_II op (int (length ?payload))") (auto simp: send_def Let_def)
  then have r: "0 \<le> op" "op < 4294967296" "length ?payload < 4294967296"
    and hh: "h = pack_I op @ pack_I (int (length ?payload))"
    by (simp_all add: struct_pack_II_Inr)
  have "send P p op c = write_call P (h @ ?payload) c"
    by (simp add: send_def Let_def h)
  then have "bs = h @ ?payload" using assms(1) by (simp add: write_call_calls)
  then have inc: "incoming (inner d) = pack_I op @ pack_I (int (length ?payload)) @ ?payload @ rest"
    using assms(3) hh by simp
  from recv_wire_frame[OF assms(2) inc r] assms(4)
  show ?thesis by auto
qed

theorem send_recv_roundtrip_witness:
  "\<exists>d'. send_recv (echo_platform sample_library) (JObj []) OP_PING (peer_sent [])
      = Some (Inr (OP_PING, JObj []), d') \<and> incoming (inner d') = []"
proof -
  let ?P = "echo_platform sample_library"
  let ?bs = "pack_I 3 @ pack_I 2 @ ascii ''{}''"
  have s': "send ?P (JObj []) OP_PING (peer_sent []) =
      (Inr (), \<lparr>inner = \<lparr>incoming = ?bs, limits = [], outgoing = ?bs\<rparr>,
                calls = [Write ?bs], drawn = 0\<rparr>)"
    by (simp add: send_def struct_pack_II_def Let_def write_call_def echo_platform_def
        wire_platform_def echo_write_def sample_library_def sample_dumps_empty ascii_def
        peer_sent_def fresh_def OP_PING_def)
  have c: "calls (snd (send ?P (JObj []) OP_PING (peer_sent []))) = calls (peer_sent []) @ [Write ?bs]"
    unfolding s' by (simp add: peer_sent_def fresh_def)
  have i: "incoming (inner (snd (send ?P (JObj []) OP_PING (peer_sent [])))) = ?bs @ []"
    by (simp add: s')
  have l: "json_loads ?P (json_dumps ?P (JObj [])) = Inr (JObj [])"
    by (simp add: echo_platform_def wire_platform_def sample_library_def sample_dumps_empty
        sample_loads_empty)
  from send_recv_roundtrip[OF c echo_platform_recv[of sample_library] i l]
  show ?thesis by (simp add: send_recv_def s')
qed

text \<open>
  Claim C7. The opcodes are 0 to 4. For each of them and every payload whose
  serialisation is shorter than \<open>2^32\<close> bytes, \<^verbatim>\<open>send\<close> calls \<^verbatim>\<open>_write\<close> once, with these
  bytes: the opcode as four little-endian bytes (the opcode, then three zero bytes),
  four bytes whose little-endian value is the exact length of the serialised payload,
  and then the serialised payload itself, with nothing after it. A longer payload is
  never truncated: \<^verbatim>\<open>struct.pack\<close> raises and nothing is written.
\<close>

theorem send_frame_bit_exact:
  assumes "op \<in> {OP_HANDSHAKE, OP_FRAME, OP_CLOSE, OP_PING, OP_PONG}"
  shows "[OP_HANDSHAKE, OP_FRAME, OP_CLOSE, OP_PING, OP_PONG] = [0, 1, 2, 3, 4]
    \<and> (length (json_dumps P d) < 2 ^ 32 \<longrightarrow>
        (\<exists>bs. calls (snd (send P d op c)) = calls c @ [Write bs]
          \<and> length bs = 8 + length (json_dumps P d)
          \<and> take 4 bs = [word_of_int op, 0, 0, 0]
          \<and> uint (bs ! 4) + 256 * uint (bs ! 5) + 65536 * uint (bs ! 6)
              + 16777216 * uint (bs ! 7) = int (length (json_dumps P d))
          \<and> drop 8 bs = json_dumps P d))
    \<and> (\<not> length (json_dumps P d) < 2 ^ 32 \<longrightarrow> send P d op c = (Inl StructError, c))"
proof (intro conjI impI)
  show "[OP_HANDSHAKE, OP_FRAME, OP_CLOSE, OP_PING, OP_PONG] = [0, 1, 2, 3, 4]"
    by (rule opcode_values)
next
  assume "\<not> length (json_dumps P d) < 2 ^ 32"
  then show "send P d op c = (Inl StructError, c)" by (simp add: send_too_long)
next
  assume fits: "length (json_dumps P d) < 2 ^ 32"
  define n where "n = int (length (json_dumps P d))"
  have n: "0 \<le> n" "n < 4294967296" using fits by (simp_all add: n_def)
  have op: "0 \<le> op" "op < 256"
    using assms by (auto simp: OP_HANDSHAKE_def OP_FRAME_def OP_CLOSE_def OP_PING_def OP_PONG_def)
  let ?bs = "pack_I op @ pack_I n @ json_dumps P d"
  have s: "send P d op c = write_call P ?bs c"
    using op fits by (simp add: send_fits n_def)
  have u: "unpack_I (pack_I n) = n" using n by (rule unpack_pack_I)
  have nth: "?bs ! 4 = pack_I n ! 0" "?bs ! 5 = pack_I n ! 1" "?bs ! 6 = pack_I n ! 2"
    "?bs ! 7 = pack_I n ! 3"
    by (simp_all add: nth_append length_pack_I)
  have "uint (?bs ! 4) + 256 * uint (?bs ! 5) + 65536 * uint (?bs ! 6)
              + 16777216 * uint (?bs ! 7) = n"
    unfolding nth using u unfolding unpack_I_def .
  moreover have "take 4 ?bs = [word_of_int op, 0, 0, 0]"
    using op by (simp add: length_pack_I pack_I_small)
  moreover have "drop 8 ?bs = json_dumps P d" "length ?bs = 8 + length (json_dumps P d)"
    by (simp_all add: length_pack_I)
  moreover have "calls (snd (send P d op c)) = calls c @ [Write ?bs]"
    by (simp add: s write_call_calls)
  ultimately show "\<exists>bs. calls (snd (send P d op c)) = calls c @ [Write bs]
          \<and> length bs = 8 + length (json_dumps P d)
          \<and> take 4 bs = [word_of_int op, 0, 0, 0]
          \<and> uint (bs ! 4) + 256 * uint (bs ! 5) + 65536 * uint (bs ! 6)
              + 16777216 * uint (bs ! 7) = int (length (json_dumps P d))
          \<and> drop 8 bs = json_dumps P d"
    unfolding n_def by blast
qed

theorem send_frame_bit_exact_witness:
  "OP_FRAME \<in> {OP_HANDSHAKE, OP_FRAME, OP_CLOSE, OP_PING, OP_PONG}
   \<and> length (json_dumps (wire_platform sample_library) (JObj [])) < 2 ^ 32
   \<and> (\<exists>bs. calls (snd (send (wire_platform sample_library) (JObj []) OP_FRAME (peer_sent [])))
              = calls (peer_sent []) @ [Write bs]
          \<and> length bs = 8 + length (json_dumps (wire_platform sample_library) (JObj []))
          \<and> take 4 bs = [word_of_int OP_FRAME, 0, 0, 0]
          \<and> uint (bs ! 4) + 256 * uint (bs ! 5) + 65536 * uint (bs ! 6)
              + 16777216 * uint (bs ! 7)
             = int (length (json_dumps (wire_platform sample_library) (JObj [])))
          \<and> drop 8 bs = json_dumps (wire_platform sample_library) (JObj []))"
proof -
  have m: "OP_FRAME \<in> {OP_HANDSHAKE, OP_FRAME, OP_CLOSE, OP_PING, OP_PONG}" by simp
  have l: "length (json_dumps (wire_platform sample_library) (JObj [])) < 2 ^ 32"
    by (simp add: wire_platform_def sample_library_def sample_dumps_empty ascii_def)
  from send_frame_bit_exact[OF m, of "wire_platform sample_library" "JObj []" "peer_sent []"] m l
  show ?thesis by blast
qed

text \<open>
  Claim C8 as stated fails: \<^verbatim>\<open>recv\<close> does not check the opcode. A frame whose opcode
  field is 5 and whose payload is the empty object is returned as \<open>(5, {})\<close>.
\<close>

theorem recv_passes_unknown_opcode_counterexample:
  "map_option fst (recv (wire_platform sample_library) (peer_sent (spec_frame 5 (ascii ''{}''))))
     = Some (Inr (5, JObj []))"
proof -
  have inc: "incoming (inner (peer_sent (spec_frame 5 (ascii ''{}''))))
      = pack_I 5 @ pack_I (int (length (ascii ''{}''))) @ ascii ''{}'' @ []"
    by (simp add: peer_sent_def fresh_def spec_frame_def)
  have "length (ascii ''{}'') < 4294967296" by (simp add: length_ascii)
  from recv_wire_frame[OF wire_platform_recv[of sample_library] inc _ _ this]
  obtain c' where "recv (wire_platform sample_library)
      (peer_sent (spec_frame 5 (ascii ''{}''))) = Some (Inr (5, JObj []), c')"
    by (auto simp: wire_platform_sel sample_library_sel sample_loads_empty)
  then show ?thesis by simp
qed

text \<open>
  Claim C8, amended. \<^verbatim>\<open>recv\<close> returns the opcode field of the header as it is: for
  every value \<open>x\<close> of the 32-bit field, one of the five opcodes or not, a frame with
  that field and a payload that \<^verbatim>\<open>json.loads\<close> accepts is returned as \<open>(x, payload)\<close>.
  No error is raised for an opcode that is not one of the five.
\<close>

theorem recv_returns_raw_opcode:
  assumes "recv_impl P = wire_recv"
    and "incoming (inner c) = spec_frame x payload @ rest"
    and "0 \<le> x" and "x < 2 ^ 32" and "length payload < 2 ^ 32"
    and "json_loads P payload = Inr d"
  shows "\<exists>c'. recv P c = Some (Inr (x, d), c') \<and> incoming (inner c') = rest"
proof -
  have inc: "incoming (inner c) = pack_I x @ pack_I (int (length payload)) @ payload @ rest"
    using assms(2) by (simp add: spec_frame_def)
  from recv_wire_frame[OF assms(1) inc] assms(3-6)
  show ?thesis by auto
qed

theorem recv_returns_raw_opcode_witness:
  "recv_impl (wire_platform sample_library) = wire_recv
   \<and> incoming (inner (peer_sent (spec_frame 4294967295 (ascii ''{}''))))
      = spec_frame 4294967295 (ascii ''{}'') @ []
   \<and> (0::int) \<le> 4294967295 \<and> (4294967295::int) < 2 ^ 32 \<and> length (ascii ''{}'') < 2 ^ 32
   \<and> json_loads (wire_platform sample_library) (ascii ''{}'') = Inr (JObj [])
   \<and> (\<exists>c'. recv (wire_platform sample_library) (peer_sent (spec_frame 4294967295 (ascii ''{}'')))
            = Some (Inr (4294967295, JObj []), c') \<and> incoming (inner c') = [])"
proof -
  have inc: "incoming (inner (peer_sent (spec_frame 4294967295 (ascii ''{}''))))
      = spec_frame 4294967295 (ascii ''{}'') @ []"
    by (simp add: peer_sent_def fresh_def)
  have r: "(0::int) \<le> 4294967295" "(4294967295::int) < 2 ^ 32" "length (ascii ''{}'') < 2 ^ 32"
    by (simp_all add: length_ascii)
  have l: "json_loads (wire_platform sample_library) (ascii ''{}'') = Inr (JObj [])"
    by (simp add: wire_platform_sel sample_library_sel sample_loads_empty)
  from recv_returns_raw_opcode[OF wire_platform_recv[of sample_library] inc r l]
    inc r l wire_platform_recv[of sample_library]
  show ?thesis by simp
qed

subsection \<open>\<^verbatim>\<open>set_activity\<close>\<close>



section \<open>Further properties of the read loop and of connecting\<close>

text \<open>
  The exact read where the peer does send enough: whatever the sizes of the chunks the
  transport hands over, \<^verbatim>\<open>_recv_exactly(n)\<close> returns the first \<open>n\<close> bytes in order and
  leaves the rest unread. In the concrete run the nine bytes arrive in chunks of 1, 3
  and 4, or at once; the result is the same.
\<close>

theorem recv_exactly_reassembles:
  assumes "recv_impl P = wire_recv" and "0 \<le> n" and "nat n \<le> length (incoming (inner c))"
  shows "\<exists>c'. recv_exactly P n c = Some (Inr (take (nat n) (incoming (inner c))), c')
           \<and> incoming (inner c') = drop (nat n) (incoming (inner c))"
  using recv_loop_wire[OF assms, of "[]"] by (auto simp: recv_exactly_def)

theorem recv_exactly_reassembles_witness:
  "\<exists>c' d'. recv_exactly (wire_platform sample_library) 8 (chunked [1, 2, 3, 4, 5, 6, 7, 8, 9] [1, 3])
              = Some (Inr [1, 2, 3, 4, 5, 6, 7, 8], c')
        \<and> incoming (inner c') = [9]
        \<and> recv_exactly (wire_platform sample_library) 8 (chunked [1, 2, 3, 4, 5, 6, 7, 8, 9] [])
              = Some (Inr [1, 2, 3, 4, 5, 6, 7, 8], d')
        \<and> calls c' = [Recv 8, Recv 7, Recv 4] \<and> calls d' = [Recv 8]"
proof -
  have a: "(0::int) \<le> 8" by simp
  have b: "nat 8 \<le> length (incoming (inner (chunked [1, 2, 3, 4, 5, 6, 7, 8, 9] ls)))" for ls
    by (simp add: chunked_def fresh_def)
  from recv_exactly_reassembles[OF wire_platform_recv[of sample_library] a b[of "[1, 3]"]]
  obtain c' where c: "recv_exactly (wire_platform sample_library) 8 (chunked [1, 2, 3, 4, 5, 6, 7, 8, 9] [1, 3])
              = Some (Inr [1, 2, 3, 4, 5, 6, 7, 8], c')" "incoming (inner c') = [9]"
    by (auto simp: chunked_def fresh_def)
  have c': "calls c' = [Recv 8, Recv 7, Recv 4]"
    using c(1)
    by (auto simp: recv_exactly_def recv_loop_step recv_loop_0 recv_call_def wire_platform_recv
        wire_recv_def chunk_len_def chunked_def fresh_def)
  from recv_exactly_reassembles[OF wire_platform_recv[of sample_library] a b[of "[]"]]
  obtain d' where d: "recv_exactly (wire_platform sample_library) 8 (chunked [1, 2, 3, 4, 5, 6, 7, 8, 9] [])
              = Some (Inr [1, 2, 3, 4, 5, 6, 7, 8], d')"
    by (auto simp: chunked_def fresh_def)
  have d': "calls d' = [Recv 8]"
    using d
    by (auto simp: recv_exactly_def recv_loop_step recv_loop_0 recv_call_def wire_platform_recv
        wire_recv_def chunk_len_def chunked_def fresh_def)
  from c c' d d' show ?thesis by blast
qed

text \<open>
  \<^verbatim>\<open>WinDiscordIpcClient._connect\<close> where only the pipe of index 7 can be opened: the
  candidates 0 to 7 are tried in order, 7 is kept as \<^verbatim>\<open>_f\<close> and \<^verbatim>\<open>path\<close>, and 8 and 9
  are not tried.
\<close>

theorem win_connect_first_success_wins:
  "win_connect only_seven win0 =
     (Inr None,
      \<lparr>win_f = Some 5, win_path = Some (win_pipe_path 7),
       win_os = map win_pipe_path [0, 1, 2, 3, 4, 5, 6, 7]\<rparr>)"
  by (simp add: win_connect_def range10_def only_seven_def no_discord_def win0_def Let_def
      win_pipe_path_def str_nat_digits str_nat_0_1)

end
